theory Spec2Isabelle
  imports Complex_Main "HOL-Library.Multiset"
begin

section \<open>JavaScript values used by TPCUtils\<close>

text \<open>
  A synchronous throw of the JavaScript engine. The only one the code of
  \<^verbatim>\<open>TPCUtils\<close> can raise is the \<^verbatim>\<open>TypeError\<close> of reading a property of
  \<^verbatim>\<open>undefined\<close> or \<^verbatim>\<open>null\<close>.
\<close>

datatype js_error = TypeError

text \<open>\<^verbatim>\<open>String.prototype.split\<close> with a one-character separator.\<close>

fun split :: "char \<Rightarrow> string \<Rightarrow> string list" where
  "split c [] = [[]]"
| "split c (x # xs) =
     (if x = c then [] # split c xs
      else (case split c xs of [] \<Rightarrow> [[x]] | y # ys \<Rightarrow> (x # y) # ys))"

text \<open>The position of the first occurrence of an element (the length when there is none).\<close>

fun first_index :: "'a list \<Rightarrow> 'a \<Rightarrow> nat" where
  "first_index [] y = 0"
| "first_index (x # xs) y = (if x = y then 0 else Suc (first_index xs y))"

text \<open>\<^verbatim>\<open>Array.prototype.join\<close> on strings.\<close>

fun join :: "string \<Rightarrow> string list \<Rightarrow> string" where
  "join sep [] = []"
| "join sep [x] = x"
| "join sep (x # y # ys) = x @ sep @ join sep (y # ys)"

text \<open>
  \<^verbatim>\<open>Number.prototype.toString\<close> on a non-negative integer: its decimal digits (an
  ssrc is below \<open>2^32\<close>, where a double is exact and prints without an exponent).
\<close>

definition digit_char :: "nat \<Rightarrow> char" where
  "digit_char d = ''0123456789'' ! d"

fun nat_toString :: "nat \<Rightarrow> string" where
  "nat_toString n =
     (if n < 10 then [digit_char n] else nat_toString (n div 10) @ [digit_char (n mod 10)])"

declare nat_toString.simps [simp del]

text \<open>
  The \<^verbatim>\<open>id\<close> of a parsed \<^verbatim>\<open>a=ssrc\<close> line is a number when the text is a canonical
  integer and a string otherwise; the code reads it through \<^verbatim>\<open>id.toString()\<close>.
\<close>

datatype ssrc_id = NumId nat | StrId string

fun toString :: "ssrc_id \<Rightarrow> string" where
  "toString (NumId n) = nat_toString n"
| "toString (StrId s) = s"

text \<open>
  A JavaScript \<^verbatim>\<open>Set\<close> of strings, as the list of its members in insertion order:
  \<^verbatim>\<open>add\<close> of a member that is already present changes nothing.
\<close>

definition set_add :: "string list \<Rightarrow> string \<Rightarrow> string list" where
  "set_add s x = (if x \<in> set s then s else s @ [x])"

section \<open>The parsed session description\<close>

record ssrc_entry =
  entry_id :: ssrc_id
  attribute :: string
  val :: string

text \<open>
  The \<^verbatim>\<open>ssrcs\<close> of a parsed \<^verbatim>\<open>a=ssrc-group\<close> line: the text after the semantics.
  The parser turns a text that is one canonical integer into a number, so a group
  with a single member carries a number and a group with several members a string.
\<close>

datatype group_members = MembersStr string | MembersNum nat

record ssrc_group =
  semantics :: string
  group_ssrcs :: group_members

record rid_entry =
  rid_id :: string
  rid_direction :: string

record simulcast_attr =
  dir1 :: string
  list1 :: string

record simulcast_03_attr =
  sim_value :: string

text \<open>
  One media section of the structure \<^verbatim>\<open>transform.parse\<close> returns. A field that is
  \<^verbatim>\<open>undefined\<close> is \<open>None\<close>; the fields the code never touches are not modelled.
\<close>

record mline =
  mtype :: string
  ssrcs :: "ssrc_entry list option"
  ssrcGroups :: "ssrc_group list option"
  rids :: "rid_entry list option"
  simulcast :: "simulcast_attr option"
  simulcast_03 :: "simulcast_03_attr option"

record parsed_sdp =
  media :: "mline list"

text \<open>
  A session description: its type and its SDP. The SDP text and the library
  functions \<^verbatim>\<open>transform.parse\<close> and \<^verbatim>\<open>transform.write\<close> are not part of this
  repository: the text is a type parameter and the two functions are parameters
  \<open>parse\<close> and \<open>write\<close> of every operation that calls them.
\<close>

record 'd description =
  dtype :: string
  sdp :: 'd

section \<open>ensureCorrectOrderOfSsrcs\<close>

text \<open>
  \<^verbatim>\<open>group.ssrcs.split(' ').filter(Boolean)\<close> (lines 110 to 112): a string is split at
  spaces and the empty pieces are filtered out. A number has no \<^verbatim>\<open>split\<close>, and the call
  throws.
\<close>

definition group_tokens :: "ssrc_group \<Rightarrow> js_error + string list" where
  "group_tokens g =
     (case group_ssrcs g of
        MembersStr str \<Rightarrow> Inr (filter (\<lambda>s. s \<noteq> []) (split CHR '' '' str))
      | MembersNum n \<Rightarrow> Inl TypeError)"

text \<open>
  The set built by lines 107 to 114, group after group: the pieces of every group are
  added to the set; the first throw leaves the \<^verbatim>\<open>map\<close>.
\<close>

fun collect_from :: "string list \<Rightarrow> ssrc_group list \<Rightarrow> js_error + string list" where
  "collect_from s [] = Inr s"
| "collect_from s (g # gs) =
     (case group_tokens g of
        Inl e \<Rightarrow> Inl e
      | Inr pieces \<Rightarrow> collect_from (fold (\<lambda>x s'. set_add s' x) pieces s) gs)"

definition collect_ssrcs :: "ssrc_group list \<Rightarrow> js_error + string list" where
  "collect_ssrcs gs = collect_from [] gs"

text \<open>
  Lines 116 to 120: for every member of the set, in insertion order, the entries of
  \<^verbatim>\<open>mLine.ssrcs\<close> whose id prints as that member are appended.
\<close>

definition reorder :: "string list \<Rightarrow> ssrc_entry list \<Rightarrow> ssrc_entry list" where
  "reorder s sources =
     fold (\<lambda>x reorderedSsrcs. reorderedSsrcs @ filter (\<lambda>source. toString (entry_id source) = x) sources)
       s []"

text \<open>
  The body of the \<^verbatim>\<open>forEach\<close> callback (lines 98 to 122) on one media section.
  A group whose \<^verbatim>\<open>ssrcs\<close> is a number makes line 111 throw. When \<^verbatim>\<open>mLine.ssrcs\<close> is undefined, \<^verbatim>\<open>mLine.ssrcs.filter\<close> throws as soon as the
  callback of \<^verbatim>\<open>ssrcs.forEach\<close> runs, that is when the set is not empty.
\<close>

definition reorder_mline :: "mline \<Rightarrow> js_error + mline" where
  "reorder_mline mLine =
     (if mtype mLine = ''audio'' then Inr mLine
      else case ssrcGroups mLine of
        None \<Rightarrow> Inr mLine
      | Some [] \<Rightarrow> Inr mLine
      | Some (g # gs) \<Rightarrow>
          (case collect_ssrcs (g # gs) of
             Inl e \<Rightarrow> Inl e
           | Inr s \<Rightarrow>
               (case ssrcs mLine of
                  None \<Rightarrow> if s = [] then Inr (mLine\<lparr>ssrcs := Some []\<rparr>) else Inl TypeError
                | Some sources \<Rightarrow> Inr (mLine\<lparr>ssrcs := Some (reorder s sources)\<rparr>))))"

text \<open>\<^verbatim>\<open>forEach\<close> over the media sections: the first throw leaves the loop.\<close>

fun forEach_mline :: "(mline \<Rightarrow> js_error + mline) \<Rightarrow> mline list \<Rightarrow> js_error + mline list" where
  "forEach_mline f [] = Inr []"
| "forEach_mline f (m # ms) =
     (case f m of
        Inl e \<Rightarrow> Inl e
      | Inr m' \<Rightarrow> (case forEach_mline f ms of Inl e \<Rightarrow> Inl e | Inr ms' \<Rightarrow> Inr (m' # ms')))"

definition ensureCorrectOrderOfSsrcs ::
  "('d \<Rightarrow> parsed_sdp) \<Rightarrow> (parsed_sdp \<Rightarrow> 'd) \<Rightarrow> 'd description \<Rightarrow> js_error + 'd description" where
  "ensureCorrectOrderOfSsrcs parse write description =
     (let parsedSdp = parse (sdp description) in
      case forEach_mline reorder_mline (media parsedSdp) of
        Inl e \<Rightarrow> Inl e
      | Inr ms \<Rightarrow> Inr \<lparr>dtype = dtype description, sdp = write (parsedSdp\<lparr>media := ms\<rparr>)\<rparr>)"

section \<open>The browser and the simulcast layers\<close>

text \<open>
  The feature predicates of the \<^verbatim>\<open>browser\<close> module, which is not part of the
  class: what each predicate answers is a field.
\<close>

record browser =
  isFirefox :: bool
  isVersionGreaterThan :: "nat \<Rightarrow> bool"
  usesSdpMungingForSimulcast :: bool
  isWebKitBased :: bool
  isChromiumBased :: bool
  isReactNative :: bool

definition SIM_LAYER_1_RID :: string where "SIM_LAYER_1_RID = ''1''"
definition SIM_LAYER_2_RID :: string where "SIM_LAYER_2_RID = ''2''"
definition SIM_LAYER_3_RID :: string where "SIM_LAYER_3_RID = ''3''"

definition SIM_LAYER_RIDS :: "string list" where
  "SIM_LAYER_RIDS = [SIM_LAYER_1_RID, SIM_LAYER_2_RID, SIM_LAYER_3_RID]"

text \<open>
  Modelled from the spec: the constants \<^verbatim>\<open>LD_SCALE_FACTOR\<close> and \<^verbatim>\<open>HD_SCALE_FACTOR\<close>
  are used by the class and declared nowhere in the source files. The spec gives the
  lowest-resolution layer the scale factor 4.0 and calls 1.0 the high-definition
  reference factor.
\<close>

definition LD_SCALE_FACTOR :: real where "LD_SCALE_FACTOR = 4"
definition HD_SCALE_FACTOR :: real where "HD_SCALE_FACTOR = 1"

text \<open>
  Modelled from the spec: the object \<^verbatim>\<open>MediaDirection\<close> is used by \<^verbatim>\<open>replaceTrack\<close> and
  declared nowhere in the source files. The spec names the direction states
  sendrecv, recvonly, inactive and stopped; the other methods of the class compare
  \<^verbatim>\<open>direction\<close> with these strings.
\<close>

definition RECVONLY :: string where "RECVONLY = ''recvonly''"
definition INACTIVE :: string where "INACTIVE = ''inactive''"

definition CAMERA :: string where "CAMERA = ''camera''"
definition DESKTOP :: string where "DESKTOP = ''desktop''"

record videoBitrates =
  low :: int
  standard :: int
  high :: int

text \<open>
  An encoding of a sender. The single-layer encodings of \<^verbatim>\<open>_getStreamEncodings\<close> have
  no \<^verbatim>\<open>rid\<close> and no \<^verbatim>\<open>scaleResolutionDownBy\<close>, and a bitrate can be cleared to
  \<^verbatim>\<open>undefined\<close>: these fields are options.
\<close>

record encoding =
  active :: bool
  maxBitrate :: "int option"
  rid :: "string option"
  scaleResolutionDownBy :: "real option"

text \<open>The constructor's \<^verbatim>\<open>this.localStreamEncodingsConfig\<close> (lines 65 to 84).\<close>

definition localStreamEncodingsConfig :: "browser \<Rightarrow> videoBitrates \<Rightarrow> encoding list" where
  "localStreamEncodingsConfig b vb =
     [\<lparr>active = True,
       maxBitrate = Some (if isFirefox b then high vb else low vb),
       rid = Some SIM_LAYER_1_RID,
       scaleResolutionDownBy = Some (if isFirefox b then 1.0 else 4.0)\<rparr>,
      \<lparr>active = True,
       maxBitrate = Some (standard vb),
       rid = Some SIM_LAYER_2_RID,
       scaleResolutionDownBy = Some 2.0\<rparr>,
      \<lparr>active = True,
       maxBitrate = Some (if isFirefox b then low vb else high vb),
       rid = Some SIM_LAYER_3_RID,
       scaleResolutionDownBy = Some (if isFirefox b then 4.0 else 1.0)\<rparr>]"

section \<open>insertUnifiedPlanSimulcastReceive\<close>

text \<open>\<^verbatim>\<open>Array.prototype.findIndex\<close>: \<open>None\<close> is the result \<^verbatim>\<open>-1\<close>.\<close>

fun findIndex :: "('a \<Rightarrow> bool) \<Rightarrow> 'a list \<Rightarrow> nat option" where
  "findIndex p [] = None"
| "findIndex p (x # xs) =
     (if p x then Some 0 else map_option Suc (findIndex p xs))"

text \<open>
  The \<^verbatim>\<open>forEach\<close> of lines 171 to 179: every video section other than the one at
  \<open>idx\<close> loses its rid and simulcast attributes.
\<close>

definition strip_other_video :: "nat \<Rightarrow> mline list \<Rightarrow> mline list" where
  "strip_other_video idx ms =
     map (\<lambda>(i, mline).
            if mtype mline = ''video'' \<and> i \<noteq> idx
            then mline\<lparr>rids := None, simulcast := None, simulcast_03 := None\<rparr>
            else mline)
       (enumerate 0 ms)"

text \<open>
  With no video section \<^verbatim>\<open>findIndex\<close> returns \<^verbatim>\<open>-1\<close>, \<^verbatim>\<open>sdp.media[-1]\<close> is
  \<^verbatim>\<open>undefined\<close> and reading its \<^verbatim>\<open>rids\<close> throws. An array and an object are truthy
  whatever they hold, so each of the three attributes is truthy when it is defined.
\<close>

definition insertUnifiedPlanSimulcastReceive ::
  "browser \<Rightarrow> ('d \<Rightarrow> parsed_sdp) \<Rightarrow> (parsed_sdp \<Rightarrow> 'd) \<Rightarrow> 'd description \<Rightarrow> js_error + 'd description" where
  "insertUnifiedPlanSimulcastReceive b parse write desc =
     (if usesSdpMungingForSimulcast b then Inr desc
      else
        let parsed = parse (sdp desc) in
        case findIndex (\<lambda>mline. mtype mline = ''video'') (media parsed) of
          None \<Rightarrow> Inl TypeError
        | Some idx \<Rightarrow>
            let m = media parsed ! idx in
            if rids m \<noteq> None \<and> (simulcast_03 m \<noteq> None \<or> simulcast m \<noteq> None)
            then Inr \<lparr>dtype = dtype desc,
                      sdp = write (parsed\<lparr>media := strip_other_video idx (media parsed)\<rparr>)\<rparr>
            else
              let simulcastLine =
                    (if isFirefox b \<and> isVersionGreaterThan b 71
                     then ''recv '' @ join '';'' SIM_LAYER_RIDS
                     else ''recv rid='' @ join '';'' SIM_LAYER_RIDS);
                  m' = m\<lparr>rids := Some [\<lparr>rid_id = SIM_LAYER_1_RID, rid_direction = ''recv''\<rparr>,
                                        \<lparr>rid_id = SIM_LAYER_2_RID, rid_direction = ''recv''\<rparr>,
                                        \<lparr>rid_id = SIM_LAYER_3_RID, rid_direction = ''recv''\<rparr>],
                          simulcast_03 := Some \<lparr>sim_value = simulcastLine\<rparr>\<rparr>
              in Inr \<lparr>dtype = dtype desc,
                      sdp = write (parsed\<lparr>media := (media parsed)[idx := m']\<rparr>)\<rparr>)"

section \<open>Tracks, transceivers and the peer connection\<close>

text \<open>
  A \<^verbatim>\<open>MediaStreamTrack\<close>. Two handles are the same object (\<^verbatim>\<open>===\<close>) when their
  \<open>obj\<close> is the same. \<open>height\<close> is \<^verbatim>\<open>getSettings().height\<close>, which can be
  \<^verbatim>\<open>undefined\<close>.
\<close>

record media_track =
  obj :: nat
  track_id :: string
  kind :: string
  height :: "real option"

record media_stream =
  stream_id :: string

text \<open>
  A \<^verbatim>\<open>JitsiLocalTrack\<close>, by what its getters return. \<open>originalStream\<close> is the field
  \<^verbatim>\<open>_originalStream\<close>; \<open>conference\<close> holds a handle of the conference when the track
  belongs to one.
\<close>

record local_track =
  getTrack :: "media_track option"
  getType :: string
  isVideoTrack :: bool
  getVideoType :: string
  getOriginalStream :: "media_stream option"
  originalStream :: "media_stream option"
  getStreamId :: "string option"
  getTrackId :: "string option"
  rtcId :: nat
  isMuted :: bool
  getSourceName :: "string option"
  conference :: "nat option"

record rtp_parameters =
  encodings :: "encoding list"
  transactionId :: string

record rtp_receiver =
  receiver_track :: "media_track option"

record rtp_sender =
  sender_track :: "media_track option"
  getParameters :: rtp_parameters

record transceiver =
  receiver :: "rtp_receiver option"
  sender :: "rtp_sender option"
  direction :: string
  currentDirection :: "string option"

text \<open>
  The \<^verbatim>\<open>RTCPeerConnection\<close>: its transceivers, in the order of \<^verbatim>\<open>getTransceivers()\<close>,
  and the streams handed to \<^verbatim>\<open>addStream\<close>.
\<close>

record peerconnection =
  getTransceivers :: "transceiver list"
  addedStreams :: "media_stream list"

record videoQuality =
  desktopBitrate :: "int option"

record pc_options =
  videoQuality :: "videoQuality option"

text \<open>
  The \<^verbatim>\<open>TraceablePeerConnection\<close> behind \<^verbatim>\<open>this.pc\<close>. \<open>getLocalTracks\<close> answers for a
  media type (\<open>None\<close> is \<^verbatim>\<open>undefined\<close>); \<open>localTracks\<close> is the map from \<^verbatim>\<open>rtcId\<close> to
  track.
\<close>

record tpc =
  isSimulcastOn :: bool
  isSharingLowFpsScreen :: bool
  usesUnifiedPlan :: bool
  options :: "pc_options option"
  getLocalTracks :: "string option \<Rightarrow> local_track list option"
  localTracks :: "nat \<rightharpoonup> local_track"
  peerconnection :: peerconnection

text \<open>
  What a method of the class gives back to its caller: a synchronous throw, a promise
  that is rejected with the message of its \<^verbatim>\<open>Error\<close>, a promise that is resolved, or
  the promise of a call on a sender of the transport (on the transceiver at the given
  position), which settles as the transport settles it.
\<close>

datatype transport_call =
  SenderReplaceTrack nat "media_track option"
| SenderSetParameters nat rtp_parameters

datatype outcome =
  Throws js_error
| Rejects string
| Resolves
| Transport transport_call

text \<open>
  The transport is not part of the class. Where a method goes on after a call of the
  transport, the transport's answer is a parameter: \<open>addStream\<close> gives the connection
  after the call, \<open>settle\<close> tells how the promise of a sender call settles (\<open>None\<close>
  resolved, \<open>Some msg\<close> rejected) and gives the connection then.
\<close>

record transport =
  addStream :: "peerconnection \<Rightarrow> media_stream \<Rightarrow> peerconnection"
  settle :: "peerconnection \<Rightarrow> transport_call \<Rightarrow> string option \<times> peerconnection"

text \<open>
  \<^verbatim>\<open>Array.prototype.find\<close> and \<^verbatim>\<open>filter\<close> with a callback that may throw; the
  result is the position of the element, which stands for the object itself.
\<close>

fun find_index :: "('a \<Rightarrow> js_error + bool) \<Rightarrow> 'a list \<Rightarrow> js_error + nat option" where
  "find_index p [] = Inr None"
| "find_index p (x # xs) =
     (case p x of
        Inl e \<Rightarrow> Inl e
      | Inr True \<Rightarrow> Inr (Some 0)
      | Inr False \<Rightarrow>
          (case find_index p xs of
             Inl e \<Rightarrow> Inl e
           | Inr None \<Rightarrow> Inr None
           | Inr (Some i) \<Rightarrow> Inr (Some (Suc i))))"

fun filter_indices :: "('a \<Rightarrow> js_error + bool) \<Rightarrow> nat \<Rightarrow> 'a list \<Rightarrow> js_error + nat list" where
  "filter_indices p n [] = Inr []"
| "filter_indices p n (x # xs) =
     (case p x of
        Inl e \<Rightarrow> Inl e
      | Inr keep \<Rightarrow>
          (case filter_indices p (Suc n) xs of
             Inl e \<Rightarrow> Inl e
           | Inr is \<Rightarrow> Inr (if keep then n # is else is)))"

text \<open>\<^verbatim>\<open>t.receiver && t.receiver.track && t.receiver.track.kind === mediaType\<close>\<close>

definition receiver_kind_guarded :: "string \<Rightarrow> transceiver \<Rightarrow> js_error + bool" where
  "receiver_kind_guarded mediaType t =
     (case receiver t of
        None \<Rightarrow> Inr False
      | Some r \<Rightarrow> (case receiver_track r of None \<Rightarrow> Inr False | Some tr \<Rightarrow> Inr (kind tr = mediaType)))"

text \<open>\<^verbatim>\<open>t.sender && t.sender.track && t.sender.track.kind === track.getType()\<close>\<close>

definition sender_kind_guarded :: "string \<Rightarrow> transceiver \<Rightarrow> js_error + bool" where
  "sender_kind_guarded mediaType t =
     (case sender t of
        None \<Rightarrow> Inr False
      | Some s \<Rightarrow> (case sender_track s of None \<Rightarrow> Inr False | Some tr \<Rightarrow> Inr (kind tr = mediaType)))"

text \<open>\<^verbatim>\<open>t.sender && t.sender.track && t.sender.track.id === localTrack.getTrackId()\<close>\<close>

definition sender_id_guarded :: "string option \<Rightarrow> transceiver \<Rightarrow> js_error + bool" where
  "sender_id_guarded trackId t =
     (case sender t of
        None \<Rightarrow> Inr False
      | Some s \<Rightarrow> (case sender_track s of None \<Rightarrow> Inr False | Some tr \<Rightarrow> Inr (Some (track_id tr) = trackId)))"

text \<open>
  \<^verbatim>\<open>t.receiver.track.kind === mediaType\<close>, without a guard: a transceiver with no
  receiver or no receiver track makes the read throw.
\<close>

definition receiver_kind :: "string option \<Rightarrow> transceiver \<Rightarrow> js_error + bool" where
  "receiver_kind mediaType t =
     (case receiver t of
        None \<Rightarrow> Inl TypeError
      | Some r \<Rightarrow> (case receiver_track r of None \<Rightarrow> Inl TypeError | Some tr \<Rightarrow> Inr (Some (kind tr) = mediaType)))"

text \<open>\<^verbatim>\<open>t.sender.track === oldTrack.getTrack()\<close>: the same object, or both \<^verbatim>\<open>null\<close>.\<close>

definition same_track :: "media_track option \<Rightarrow> media_track option \<Rightarrow> bool" where
  "same_track a b =
     (case (a, b) of
        (None, None) \<Rightarrow> True
      | (Some x, Some y) \<Rightarrow> obj x = obj y
      | _ \<Rightarrow> False)"

definition sender_is :: "media_track option \<Rightarrow> transceiver \<Rightarrow> js_error + bool" where
  "sender_is tr t =
     (case sender t of None \<Rightarrow> Inl TypeError | Some s \<Rightarrow> Inr (same_track (sender_track s) tr))"

section \<open>The encoding policy\<close>

text \<open>\<^verbatim>\<open>_getStreamEncodings\<close> (lines 135 to 146).\<close>

definition getStreamEncodings :: "browser \<Rightarrow> videoBitrates \<Rightarrow> tpc \<Rightarrow> local_track \<Rightarrow> encoding list" where
  "getStreamEncodings b vb pc localTrack =
     (if isSimulcastOn pc \<and> isVideoTrack localTrack then localStreamEncodingsConfig b vb
      else if isVideoTrack localTrack
        then [\<lparr>active = True, maxBitrate = Some (high vb), rid = None, scaleResolutionDownBy = None\<rparr>]
        else [\<lparr>active = True, maxBitrate = None, rid = None, scaleResolutionDownBy = None\<rparr>])"

text \<open>
  \<^verbatim>\<open>height / encoding.scaleResolutionDownBy\<close> and \<^verbatim>\<open>frameHeight <= newHeight\<close> on
  JavaScript numbers: an \<^verbatim>\<open>undefined\<close> operand gives \<^verbatim>\<open>NaN\<close> (here \<open>None\<close>), and every
  comparison with \<^verbatim>\<open>NaN\<close> is false. The scale factors of the configuration are 1, 2
  and 4, for which the division of a double is exact.
\<close>

definition js_div :: "real option \<Rightarrow> real option \<Rightarrow> real option" where
  "js_div x y = (case (x, y) of (Some a, Some c) \<Rightarrow> Some (a / c) | _ \<Rightarrow> None)"

definition js_le :: "real option \<Rightarrow> real \<Rightarrow> bool" where
  "js_le x y = (case x of None \<Rightarrow> False | Some a \<Rightarrow> a \<le> y)"

text \<open>
  \<^verbatim>\<open>calculateEncodingsActiveState\<close> (lines 342 to 378). \<^verbatim>\<open>localVideoTrack.getTrack()\<close>
  that is \<^verbatim>\<open>null\<close> makes \<^verbatim>\<open>getSettings\<close> throw.
\<close>

definition calculateEncodingsActiveState ::
  "browser \<Rightarrow> videoBitrates \<Rightarrow> tpc \<Rightarrow> local_track \<Rightarrow> real \<Rightarrow> js_error + bool list" where
  "calculateEncodingsActiveState b vb pc localVideoTrack newHeight =
     (case getTrack localVideoTrack of
        None \<Rightarrow> Inl TypeError
      | Some localTrack \<Rightarrow>
          let config = localStreamEncodingsConfig b vb in
          Inr (map (\<lambda>(idx, frameHeight).
                 let active =
                       (if getVideoType localVideoTrack = CAMERA
                        then (if newHeight > 0
                                 \<and> scaleResolutionDownBy (config ! idx) = Some LD_SCALE_FACTOR
                              then True
                              else js_le frameHeight newHeight)
                        else True)
                 in if isSharingLowFpsScreen pc
                       \<and> getVideoType localVideoTrack = DESKTOP
                       \<and> usesUnifiedPlan pc
                       \<and> \<not> isWebKitBased b
                       \<and> scaleResolutionDownBy (config ! idx) \<noteq> Some HD_SCALE_FACTOR
                    then False
                    else active)
               (enumerate 0
                  (map (\<lambda>encoding. js_div (height localTrack) (scaleResolutionDownBy encoding))
                     config))))"

text \<open>
  \<^verbatim>\<open>this.pc.options?.videoQuality?.desktopBitrate || DESKTOP_SHARE_RATE\<close>: the configured
  bitrate when it is defined and not zero. The constants \<^verbatim>\<open>DESKTOP_SHARE_RATE\<close> and
  \<^verbatim>\<open>HD_BITRATE\<close> are declared nowhere in the source files and are parameters.
\<close>

definition desktopShareBitrate :: "int \<Rightarrow> tpc \<Rightarrow> int" where
  "desktopShareBitrate DESKTOP_SHARE_RATE pc =
     (case options pc of
        None \<Rightarrow> DESKTOP_SHARE_RATE
      | Some opts \<Rightarrow>
          (case videoQuality opts of
             None \<Rightarrow> DESKTOP_SHARE_RATE
           | Some q \<Rightarrow>
               (case desktopBitrate q of
                  None \<Rightarrow> DESKTOP_SHARE_RATE
                | Some r \<Rightarrow> if r = 0 then DESKTOP_SHARE_RATE else r)))"

definition presenterEnabled :: "local_track \<Rightarrow> bool" where
  "presenterEnabled localVideoTrack =
     (case originalStream localVideoTrack of
        None \<Rightarrow> False
      | Some s \<Rightarrow> Some (stream_id s) \<noteq> getStreamId localVideoTrack)"

text \<open>\<^verbatim>\<open>calculateEncodingsBitrates\<close> (lines 387 to 412).\<close>

definition calculateEncodingsBitrates ::
  "int \<Rightarrow> int \<Rightarrow> browser \<Rightarrow> videoBitrates \<Rightarrow> tpc \<Rightarrow> local_track \<Rightarrow> int option list" where
  "calculateEncodingsBitrates HD_BITRATE DESKTOP_SHARE_RATE b vb pc localVideoTrack =
     (let videoType = getVideoType localVideoTrack in
      map (\<lambda>encoding.
             if isSharingLowFpsScreen pc \<and> \<not> isWebKitBased b
             then (if presenterEnabled localVideoTrack
                   then Some HD_BITRATE
                   else Some (desktopShareBitrate DESKTOP_SHARE_RATE pc))
             else if videoType = DESKTOP \<and> isChromiumBased b \<and> \<not> usesUnifiedPlan pc
               then None
               else maxBitrate encoding)
        (localStreamEncodingsConfig b vb))"

section \<open>The transceiver binder\<close>

record transceiverInit =
  init_direction :: string
  streams :: "media_stream option list"
  sendEncodings :: "encoding list"

text \<open>\<^verbatim>\<open>addTrack\<close> returns nothing: what it does is one call on the connection.\<close>

datatype pc_call =
  AddTransceiver "media_track option" transceiverInit
| AddTrack "media_track option"

definition addTrack :: "browser \<Rightarrow> videoBitrates \<Rightarrow> tpc \<Rightarrow> local_track \<Rightarrow> bool \<Rightarrow> pc_call" where
  "addTrack b vb pc localTrack isInitiator =
     (let track = getTrack localTrack in
      if isInitiator
      then AddTransceiver track
             \<lparr>init_direction = ''sendrecv'',
              streams = [getOriginalStream localTrack],
              sendEncodings = (if \<not> isFirefox b then getStreamEncodings b vb pc localTrack else [])\<rparr>
      else AddTrack track)"

text \<open>
  \<^verbatim>\<open>setEncodings\<close> (lines 488 to 496): the result of \<^verbatim>\<open>find\<close> is used without a check,
  so \<^verbatim>\<open>transceiver.sender\<close> throws when \<^verbatim>\<open>find\<close> returned \<^verbatim>\<open>undefined\<close>.
\<close>

definition setEncodings :: "browser \<Rightarrow> videoBitrates \<Rightarrow> tpc \<Rightarrow> local_track \<Rightarrow> outcome" where
  "setEncodings b vb pc track =
     (let ts = getTransceivers (peerconnection pc) in
      case find_index (sender_kind_guarded (getType track)) ts of
        Inl e \<Rightarrow> Throws e
      | Inr None \<Rightarrow> Throws TypeError
      | Inr (Some i) \<Rightarrow>
          (case sender (ts ! i) of
             None \<Rightarrow> Throws TypeError
           | Some s \<Rightarrow>
               Transport (SenderSetParameters i
                 ((getParameters s)\<lparr>encodings := getStreamEncodings b vb pc track\<rparr>))))"

definition not_found :: "string \<Rightarrow> string" where
  "not_found mediaType = ''RTCRtpTransceiver for '' @ mediaType @ '' not found''"

text \<open>
  \<^verbatim>\<open>addTrackUnmute\<close> (lines 257 to 289), with the peer connection before and after.
  The callback of \<^verbatim>\<open>then\<close> runs when the promise of \<^verbatim>\<open>setEncodings\<close> is resolved; it
  writes the direction of the transceiver object found at the start, here the
  transceiver at the same position.
\<close>

definition addTrackUnmute ::
  "transport \<Rightarrow> browser \<Rightarrow> videoBitrates \<Rightarrow> tpc \<Rightarrow> local_track \<Rightarrow> outcome \<times> tpc" where
  "addTrackUnmute tr b vb pc localTrack =
     (let mediaType = getType localTrack;
          track = getTrack localTrack;
          ts = getTransceivers (peerconnection pc) in
      case find_index (receiver_kind_guarded mediaType) ts of
        Inl e \<Rightarrow> (Throws e, pc)
      | Inr None \<Rightarrow> (Rejects (not_found mediaType), pc)
      | Inr (Some i) \<Rightarrow>
          if direction (ts ! i) = ''recvonly''
          then
            (case getOriginalStream localTrack of
               Some stream \<Rightarrow>
                 (let pc1 = pc\<lparr>peerconnection := addStream tr (peerconnection pc) stream\<rparr> in
                  case setEncodings b vb pc1 localTrack of
                    Transport call \<Rightarrow>
                      (case settle tr (peerconnection pc1) call of
                         (Some msg, conn) \<Rightarrow> (Rejects msg, pc1\<lparr>peerconnection := conn\<rparr>)
                       | (None, conn) \<Rightarrow>
                           (Resolves,
                            pc1\<lparr>localTracks := (localTracks pc1)(rtcId localTrack \<mapsto> localTrack),
                                peerconnection :=
                                  conn\<lparr>getTransceivers :=
                                    (getTransceivers conn)
                                      [i := (getTransceivers conn ! i)\<lparr>direction := ''sendrecv''\<rparr>]\<rparr>\<rparr>))
                  | r \<Rightarrow> (r, pc1))
             | None \<Rightarrow> (Resolves, pc))
          else
            (case sender (ts ! i) of
               None \<Rightarrow> (Throws TypeError, pc)
             | Some s \<Rightarrow> (Transport (SenderReplaceTrack i track), pc)))"

text \<open>\<^verbatim>\<open>removeTrackMute\<close> (lines 320 to 332).\<close>

definition removeTrackMute :: "tpc \<Rightarrow> local_track \<Rightarrow> outcome" where
  "removeTrackMute pc localTrack =
     (let mediaType = getType localTrack;
          ts = getTransceivers (peerconnection pc) in
      case find_index (sender_id_guarded (getTrackId localTrack)) ts of
        Inl e \<Rightarrow> Throws e
      | Inr None \<Rightarrow> Rejects (not_found mediaType)
      | Inr (Some i) \<Rightarrow>
          (case sender (ts ! i) of
             None \<Rightarrow> Throws TypeError
           | Some s \<Rightarrow> Transport (SenderReplaceTrack i None)))"

text \<open>
  A JavaScript number, as far as \<^verbatim>\<open>replaceTrack\<close> looks at it: \<^verbatim>\<open>NaN\<close>, a non-negative
  integer, or any other number (negative, fractional or infinite). \<^verbatim>\<open>NaN\<close> and zero
  are falsy; only a non-negative integer below the length reads an element of an array.
\<close>

datatype js_number = NaN | Whole nat | Other

definition truthy :: "js_number \<Rightarrow> bool" where
  "truthy n = (case n of NaN \<Rightarrow> False | Whole k \<Rightarrow> k \<noteq> 0 | Other \<Rightarrow> True)"

definition array_get :: "'a list \<Rightarrow> js_number \<Rightarrow> 'a option" where
  "array_get xs n =
     (case n of Whole k \<Rightarrow> if k < length xs then Some (xs ! k) else None | _ \<Rightarrow> None)"

text \<open>
  \<^verbatim>\<open>Number(s)\<close> for a string of decimal digits, the form of the index in a source name
  (the empty string gives 0). The other forms of a numeric literal (sign, fraction,
  exponent, other bases, blanks, Infinity) are not modelled: every other string is
  mapped to \<^verbatim>\<open>NaN\<close> here. \<^verbatim>\<open>replaceTrack\<close> below takes the conversion as a parameter,
  and this function is used for concrete inputs only.
\<close>

definition Number_decimal :: "string \<Rightarrow> js_number" where
  "Number_decimal s =
     (if list_all (\<lambda>c. c \<in> set ''0123456789'') s
      then Whole (fold (\<lambda>c n. 10 * n + first_index ''0123456789'' c) s 0)
      else NaN)"

text \<open>\<^verbatim>\<open>a ? a : b\<close> on strings that may be missing: the empty string is falsy.\<close>

definition truthy_string :: "string option \<Rightarrow> bool" where
  "truthy_string s = (case s of None \<Rightarrow> False | Some x \<Rightarrow> x \<noteq> [])"

definition mediaType_of :: "local_track option \<Rightarrow> local_track option \<Rightarrow> string option" where
  "mediaType_of oldTrack newTrack =
     (if truthy_string (map_option getType newTrack)
      then map_option getType newTrack
      else map_option getType oldTrack)"

definition sourceName_of :: "local_track option \<Rightarrow> local_track option \<Rightarrow> string option" where
  "sourceName_of oldTrack newTrack =
     (if truthy_string (Option.bind newTrack getSourceName)
      then Option.bind newTrack getSourceName
      else Option.bind oldTrack getSourceName)"

text \<open>Lines 423 to 427; the first argument is \<^verbatim>\<open>FeatureFlags.isMultiStreamSupportEnabled()\<close>.\<close>

definition isNewLocalSource :: "bool \<Rightarrow> tpc \<Rightarrow> local_track option \<Rightarrow> local_track option \<Rightarrow> bool" where
  "isNewLocalSource multiStream pc oldTrack newTrack =
     (multiStream
      \<and> (case getLocalTracks pc (mediaType_of oldTrack newTrack) of None \<Rightarrow> False | Some l \<Rightarrow> l \<noteq> [])
      \<and> oldTrack = None
      \<and> (case newTrack of None \<Rightarrow> False | Some n \<Rightarrow> conference n = None))"

text \<open>The callback of the second \<^verbatim>\<open>find\<close> (lines 439 to 441).\<close>

definition recvonly_inactive :: "string option \<Rightarrow> transceiver \<Rightarrow> js_error + bool" where
  "recvonly_inactive mediaType t =
     (case receiver_kind mediaType t of
        Inl e \<Rightarrow> Inl e
      | Inr k \<Rightarrow> Inr (k \<and> direction t = RECVONLY \<and> currentDirection t = Some INACTIVE))"

text \<open>The callback of the \<^verbatim>\<open>filter\<close> (lines 454 and 455).\<close>

definition kind_not_recvonly :: "string option \<Rightarrow> transceiver \<Rightarrow> js_error + bool" where
  "kind_not_recvonly mediaType t =
     (case receiver_kind mediaType t of
        Inl e \<Rightarrow> Inl e
      | Inr k \<Rightarrow> Inr (k \<and> direction t \<noteq> RECVONLY))"

text \<open>
  The third branch (lines 446 to 457). \<^verbatim>\<open>sourceName.split('-')[1]\<close> is \<^verbatim>\<open>undefined\<close>
  for a name without a hyphen, and \<^verbatim>\<open>substring\<close> on it throws.
\<close>

definition select_by_source_name ::
  "(string \<Rightarrow> js_number) \<Rightarrow> string option \<Rightarrow> string option \<Rightarrow> transceiver list \<Rightarrow> js_error + nat option" where
  "select_by_source_name Number mediaType sourceName ts =
     (case find_index (receiver_kind mediaType) ts of
        Inl e \<Rightarrow> Inl e
      | Inr transceiver \<Rightarrow>
          (case sourceName of
             None \<Rightarrow> Inr transceiver
           | Some name \<Rightarrow>
               if name = [] then Inr transceiver
               else
                 (case split CHR ''-'' name of
                    _ # part # _ \<Rightarrow>
                      (let trackIndex = Number (drop 1 part) in
                       if truthy trackIndex
                       then (case filter_indices (kind_not_recvonly mediaType) 0 ts of
                               Inl e \<Rightarrow> Inl e
                             | Inr is \<Rightarrow> Inr (array_get is trackIndex))
                       else Inr transceiver)
                  | _ \<Rightarrow> Inl TypeError)))"

text \<open>
  \<^verbatim>\<open>replaceTrack\<close> (lines 420 to 467). The promise it returns follows the sender's
  \<^verbatim>\<open>replaceTrack\<close> and is resolved with the selected transceiver.
\<close>

definition select_transceiver ::
  "(string \<Rightarrow> js_number) \<Rightarrow> bool \<Rightarrow> tpc \<Rightarrow> local_track option \<Rightarrow> local_track option \<Rightarrow> js_error + nat option" where
  "select_transceiver Number multiStream pc oldTrack newTrack =
     (let mediaType = mediaType_of oldTrack newTrack;
          ts = getTransceivers (peerconnection pc) in
      if (case oldTrack of None \<Rightarrow> False | Some old \<Rightarrow> \<not> isMuted old)
      then find_index (sender_is (Option.bind oldTrack getTrack)) ts
      else if isNewLocalSource multiStream pc oldTrack newTrack
      then find_index (recvonly_inactive mediaType) ts
      else select_by_source_name Number mediaType (sourceName_of oldTrack newTrack) ts)"

definition replaceTrack ::
  "(string \<Rightarrow> js_number) \<Rightarrow> bool \<Rightarrow> tpc \<Rightarrow> local_track option \<Rightarrow> local_track option \<Rightarrow> outcome" where
  "replaceTrack Number multiStream pc oldTrack newTrack =
     (let track = Option.bind newTrack getTrack;
          ts = getTransceivers (peerconnection pc) in
      case select_transceiver Number multiStream pc oldTrack newTrack of
        Inl e \<Rightarrow> Throws e
      | Inr None \<Rightarrow> Rejects ''replace track failed''
      | Inr (Some i) \<Rightarrow>
          (case sender (ts ! i) of
             None \<Rightarrow> Throws TypeError
           | Some s \<Rightarrow> Transport (SenderReplaceTrack i track)))"

section \<open>Vocabulary of the statements\<close>

text \<open>A group whose members the parser left as a string, and the members it lists.\<close>

definition member_list :: "ssrc_group \<Rightarrow> bool" where
  "member_list g = (case group_ssrcs g of MembersStr str \<Rightarrow> True | MembersNum n \<Rightarrow> False)"

definition members :: "ssrc_group \<Rightarrow> string list" where
  "members g =
     (case group_ssrcs g of
        MembersStr str \<Rightarrow> filter (\<lambda>s. s \<noteq> []) (split CHR '' '' str)
      | MembersNum n \<Rightarrow> [])"

text \<open>All group members of a section, in the order the groups list them.\<close>

definition all_tokens :: "ssrc_group list \<Rightarrow> string list" where
  "all_tokens gs = concat (map members gs)"

text \<open>A list without its repeated elements, every element kept at its first occurrence.\<close>

definition dedup :: "'a list \<Rightarrow> 'a list" where
  "dedup xs = rev (remdups (rev xs))"

text \<open>A transceiver whose receiver has a track, and one whose receiver track is of a kind.\<close>

definition has_receiver_track :: "transceiver \<Rightarrow> bool" where
  "has_receiver_track t =
     (case receiver t of None \<Rightarrow> False | Some r \<Rightarrow> receiver_track r \<noteq> None)"

definition of_kind :: "string option \<Rightarrow> transceiver \<Rightarrow> bool" where
  "of_kind mediaType t =
     (case receiver t of
        None \<Rightarrow> False
      | Some r \<Rightarrow> (case receiver_track r of None \<Rightarrow> False | Some tr \<Rightarrow> Some (kind tr) = mediaType))"

text \<open>The placeholder of a new source: of the kind, recvonly, negotiated as inactive.\<close>

definition placeholder :: "string option \<Rightarrow> transceiver \<Rightarrow> bool" where
  "placeholder mediaType t =
     (of_kind mediaType t \<and> direction t = ''recvonly'' \<and> currentDirection t = Some ''inactive'')"

text \<open>The positions of the transceivers of a kind that are not recvonly, from the front.\<close>

definition sending_positions :: "string option \<Rightarrow> transceiver list \<Rightarrow> nat list" where
  "sending_positions mediaType ts =
     filter (\<lambda>i. of_kind mediaType (ts ! i) \<and> direction (ts ! i) \<noteq> ''recvonly'') [0..<length ts]"

text \<open>What \<^verbatim>\<open>replaceTrack\<close> returns once a transceiver is selected or none is.\<close>

definition bound_to :: "nat option \<Rightarrow> media_track option \<Rightarrow> outcome" where
  "bound_to selected track =
     (case selected of
        None \<Rightarrow> Rejects ''replace track failed''
      | Some i \<Rightarrow> Transport (SenderReplaceTrack i track))"

section \<open>Example inputs\<close>

text \<open>
  A video section with a SIM group and a FID group that share the member 11, as a
  simulcast sender with retransmission announces them.
\<close>

definition ssrc1 :: ssrc_entry where
  "ssrc1 = \<lparr>entry_id = NumId 11, attribute = ''cname'', val = ''a''\<rparr>"

definition ssrc2 :: ssrc_entry where
  "ssrc2 = \<lparr>entry_id = NumId 12, attribute = ''cname'', val = ''a''\<rparr>"

definition ssrc3 :: ssrc_entry where
  "ssrc3 = \<lparr>entry_id = NumId 13, attribute = ''cname'', val = ''a''\<rparr>"

definition ssrc9 :: ssrc_entry where
  "ssrc9 = \<lparr>entry_id = NumId 19, attribute = ''cname'', val = ''a''\<rparr>"

definition sim_fid_groups :: "ssrc_group list" where
  "sim_fid_groups =
     [\<lparr>semantics = ''SIM'', group_ssrcs = MembersStr ''11 12''\<rparr>,
      \<lparr>semantics = ''FID'', group_ssrcs = MembersStr ''11 13''\<rparr>]"

definition video_section :: "ssrc_entry list \<Rightarrow> mline" where
  "video_section l =
     \<lparr>mtype = ''video'', ssrcs = Some l, ssrcGroups = Some sim_fid_groups,
      rids = None, simulcast = None, simulcast_03 = None\<rparr>"

text \<open>A video section whose only group has the single member 11.\<close>

definition single_member_section :: mline where
  "single_member_section =
     \<lparr>mtype = ''video'', ssrcs = Some [ssrc1],
      ssrcGroups = Some [\<lparr>semantics = ''FID'', group_ssrcs = MembersNum 11\<rparr>],
      rids = None, simulcast = None, simulcast_03 = None\<rparr>"

text \<open>
  A parse and a write for the examples. The text is stood for by the structure that
  was written, and reading it back loses what the text cannot carry: a section with
  an empty ssrc list writes no \<^verbatim>\<open>a=ssrc\<close> line, and the parse of a text without
  such a line leaves \<^verbatim>\<open>ssrcs\<close> undefined.
\<close>

definition read_back_mline :: "mline \<Rightarrow> mline" where
  "read_back_mline m = (if ssrcs m = Some [] then m\<lparr>ssrcs := None\<rparr> else m)"

definition read_back :: "parsed_sdp \<Rightarrow> parsed_sdp" where
  "read_back p = p\<lparr>media := map read_back_mline (media p)\<rparr>"

definition video_offer :: "ssrc_entry list \<Rightarrow> parsed_sdp description" where
  "video_offer l = \<lparr>dtype = ''offer'', sdp = \<lparr>media = [video_section l]\<rparr>\<rparr>"

definition chrome :: browser where
  "chrome = \<lparr>isFirefox = False, isVersionGreaterThan = (\<lambda>v. v < 96),
     usesSdpMungingForSimulcast = False, isWebKitBased = False, isChromiumBased = True,
     isReactNative = False\<rparr>"

definition bitrates :: videoBitrates where
  "bitrates = \<lparr>low = 200000, standard = 500000, high = 1500000\<rparr>"

definition cam_track :: media_track where
  "cam_track = \<lparr>obj = 1, track_id = ''cam'', kind = ''video'', height = Some 720\<rparr>"

definition camera_720 :: local_track where
  "camera_720 =
     \<lparr>getTrack = Some cam_track,
      getType = ''video'', isVideoTrack = True, getVideoType = CAMERA,
      getOriginalStream = Some \<lparr>stream_id = ''s1''\<rparr>, originalStream = Some \<lparr>stream_id = ''s1''\<rparr>,
      getStreamId = Some ''s1'', getTrackId = Some ''cam'', rtcId = 1, isMuted = False,
      getSourceName = Some ''ep-v0'', conference = None\<rparr>"

definition empty_connection :: peerconnection where
  "empty_connection = \<lparr>getTransceivers = [], addedStreams = []\<rparr>"

definition simulcast_pc :: "peerconnection \<Rightarrow> tpc" where
  "simulcast_pc conn =
     \<lparr>isSimulcastOn = True, isSharingLowFpsScreen = False, usesUnifiedPlan = True,
      options = None, getLocalTracks = (\<lambda>_. Some []), localTracks = Map.empty,
      peerconnection = conn\<rparr>"

definition plain_section :: "string \<Rightarrow> mline" where
  "plain_section t =
     \<lparr>mtype = t, ssrcs = None, ssrcGroups = None, rids = None, simulcast = None, simulcast_03 = None\<rparr>"

definition offer :: "parsed_sdp description" where
  "offer = \<lparr>dtype = ''offer'', sdp = \<lparr>media = [plain_section ''audio'', plain_section ''video'']\<rparr>\<rparr>"

definition firefox :: "nat \<Rightarrow> browser" where
  "firefox version = \<lparr>isFirefox = True, isVersionGreaterThan = (\<lambda>v. v < version),
     usesSdpMungingForSimulcast = False, isWebKitBased = False, isChromiumBased = False,
     isReactNative = False\<rparr>"

definition desktop_track :: "media_stream option \<Rightarrow> local_track" where
  "desktop_track original =
     \<lparr>getTrack = Some \<lparr>obj = 2, track_id = ''screen'', kind = ''video'', height = Some 1080\<rparr>,
      getType = ''video'', isVideoTrack = True, getVideoType = DESKTOP,
      getOriginalStream = original, originalStream = original,
      getStreamId = Some ''s2'', getTrackId = Some ''screen'', rtcId = 2, isMuted = False,
      getSourceName = Some ''ep-v1'', conference = None\<rparr>"

definition lowfps_pc :: "int option \<Rightarrow> tpc" where
  "lowfps_pc configured =
     \<lparr>isSimulcastOn = True, isSharingLowFpsScreen = True, usesUnifiedPlan = True,
      options = Some \<lparr>videoQuality = Some \<lparr>desktopBitrate = configured\<rparr>\<rparr>,
      getLocalTracks = (\<lambda>_. Some []), localTracks = Map.empty,
      peerconnection = empty_connection\<rparr>"

definition remote_video :: media_track where
  "remote_video = \<lparr>obj = 100, track_id = ''remote'', kind = ''video'', height = None\<rparr>"

definition video_transceiver :: "string \<Rightarrow> string option \<Rightarrow> media_track option \<Rightarrow> transceiver" where
  "video_transceiver dir negotiated sent =
     \<lparr>receiver = Some \<lparr>receiver_track = Some remote_video\<rparr>,
      sender = Some \<lparr>sender_track = sent, getParameters = \<lparr>encodings = [], transactionId = ''t''\<rparr>\<rparr>,
      direction = dir, currentDirection = negotiated\<rparr>"

definition connection_of :: "transceiver list \<Rightarrow> peerconnection" where
  "connection_of ts = \<lparr>getTransceivers = ts, addedStreams = []\<rparr>"

definition multi_stream_pc :: tpc where
  "multi_stream_pc =
     \<lparr>isSimulcastOn = True, isSharingLowFpsScreen = False, usesUnifiedPlan = True,
      options = None, getLocalTracks = (\<lambda>_. Some [camera_720]), localTracks = Map.empty,
      peerconnection =
        connection_of [video_transceiver ''sendrecv'' (Some ''sendrecv'') (Some cam_track),
                       video_transceiver ''recvonly'' (Some ''inactive'') None]\<rparr>"

definition muted_start :: "transceiver list" where
  "muted_start =
     [video_transceiver ''recvonly'' (Some ''recvonly'') None,
      video_transceiver ''sendrecv'' (Some ''sendrecv'') None,
      video_transceiver ''sendrecv'' (Some ''sendrecv'') None]"

definition recording_transport :: transport where
  "recording_transport =
     \<lparr>addStream = (\<lambda>conn s. conn\<lparr>addedStreams := addedStreams conn @ [s]\<rparr>),
      settle = (\<lambda>conn call. (None, conn))\<rparr>"

definition muted_start_pc :: tpc where
  "muted_start_pc =
     \<lparr>isSimulcastOn = True, isSharingLowFpsScreen = False, usesUnifiedPlan = True,
      options = None, getLocalTracks = (\<lambda>_. Some []), localTracks = Map.empty,
      peerconnection = connection_of muted_start\<rparr>"

section \<open>Properties of ensureCorrectOrderOfSsrcs\<close>

lemma fold_set_add_snoc:
  "fold (\<lambda>x s'. set_add s' x) (xs @ [x]) s = set_add (fold (\<lambda>x s'. set_add s' x) xs s) x"
  by simp

lemma fold_set_add_eq:
  "fold (\<lambda>x s'. set_add s' x) xs [] = rev (remdups (rev xs))"
proof (induction xs rule: rev_induct)
  case Nil
  then show ?case by simp
next
  case (snoc x xs)
  then show ?case by (simp add: set_add_def)
qed

lemma collect_from_eq:
  "collect_from s gs =
     (if list_all member_list gs
      then Inr (fold (\<lambda>x s'. set_add s' x) (all_tokens gs) s)
      else Inl TypeError)"
proof (induction gs arbitrary: s)
  case Nil
  then show ?case by (simp add: all_tokens_def)
next
  case (Cons g gs)
  show ?case
  proof (cases "group_ssrcs g")
    case (MembersStr str)
    then show ?thesis
      by (simp add: Cons.IH group_tokens_def member_list_def members_def all_tokens_def)
  next
    case (MembersNum n)
    then show ?thesis
      by (simp add: group_tokens_def member_list_def)
  qed
qed

lemma collect_ssrcs_eq:
  "collect_ssrcs gs = (if list_all member_list gs then Inr (dedup (all_tokens gs)) else Inl TypeError)"
  by (simp add: collect_ssrcs_def collect_from_eq fold_set_add_eq dedup_def)

lemma distinct_dedup [simp]: "distinct (dedup xs)"
  by (simp add: dedup_def)

lemma collect_ssrcs_distinct: "collect_ssrcs gs = Inr s \<Longrightarrow> distinct s"
  by (auto simp: collect_ssrcs_eq split: if_splits)

lemma fold_append_acc:
  "fold (\<lambda>x acc. acc @ F x) s acc = acc @ concat (map F s)"
  by (induction s arbitrary: acc) simp_all

lemma reorder_eq:
  "reorder s sources = concat (map (\<lambda>x. filter (\<lambda>source. toString (entry_id source) = x) sources) s)"
  by (simp add: reorder_def fold_append_acc)

lemma reorder_Nil [simp]: "reorder [] sources = []"
  by (simp add: reorder_eq)

lemma reorder_Cons:
  "reorder (x # s) sources = filter (\<lambda>source. toString (entry_id source) = x) sources @ reorder s sources"
  by (simp add: reorder_eq)

lemma set_reorder:
  "set (reorder s sources) = {e \<in> set sources. toString (entry_id e) \<in> set s}"
  by (induction s) (auto simp: reorder_Cons)

lemma filter_reorder:
  "distinct s \<Longrightarrow>
   filter (\<lambda>e. toString (entry_id e) = t) (reorder s sources) =
     (if t \<in> set s then filter (\<lambda>e. toString (entry_id e) = t) sources else [])"
proof (induction s)
  case Nil
  then show ?case by simp
next
  case (Cons x s)
  then show ?case by (auto simp: reorder_Cons filter_empty_conv set_reorder)
qed

lemma mset_reorder:
  "distinct s \<Longrightarrow>
   mset (reorder s sources) = mset (filter (\<lambda>e. toString (entry_id e) \<in> set s) sources)"
proof (induction s)
  case Nil
  then show ?case by simp
next
  case (Cons x s)
  have "mset (filter (\<lambda>e. toString (entry_id e) \<in> set (x # s)) sources) =
        mset (filter (\<lambda>e. toString (entry_id e) = x) sources) +
        mset (filter (\<lambda>e. toString (entry_id e) \<in> set s) sources)"
    using Cons.prems by (induction sources) auto
  with Cons show ?case by (simp add: reorder_Cons)
qed

lemma reorder_cong:
  "(\<And>x. x \<in> set s \<Longrightarrow>
      filter (\<lambda>e. toString (entry_id e) = x) xs = filter (\<lambda>e. toString (entry_id e) = x) ys) \<Longrightarrow>
   reorder s xs = reorder s ys"
  by (induction s) (simp_all add: reorder_Cons)

lemma reorder_idem:
  "distinct s \<Longrightarrow> reorder s (reorder s sources) = reorder s sources"
  by (rule reorder_cong) (simp add: filter_reorder)

lemma first_index_append:
  "first_index (xs @ ys) a = (if a \<in> set xs then first_index xs a else length xs + first_index ys a)"
  by (induction xs) auto

lemma first_index_less: "a \<in> set xs \<Longrightarrow> first_index xs a < length xs"
  by (induction xs) auto

lemma first_index_le: "first_index xs a \<le> length xs"
  by (induction xs) auto

lemma sorted_wrt_all: "(\<And>a b. a \<in> set xs \<Longrightarrow> b \<in> set xs \<Longrightarrow> P a b) \<Longrightarrow> sorted_wrt P xs"
  by (induction xs) auto

lemma sorted_reorder:
  "distinct s \<Longrightarrow>
   sorted_wrt (\<lambda>a b. first_index s (toString (entry_id a)) \<le> first_index s (toString (entry_id b)))
     (reorder s sources)"
proof (induction s)
  case Nil
  then show ?case by simp
next
  case (Cons x s)
  let ?k = "\<lambda>l e. first_index l (toString (entry_id e))"
  have tail: "sorted_wrt (\<lambda>a b. ?k (x # s) a \<le> ?k (x # s) b) (reorder s sources)"
  proof (rule sorted_wrt_mono_rel [OF _ Cons.IH])
    show "distinct s" using Cons.prems by simp
  next
    fix a b
    assume "a \<in> set (reorder s sources)" "b \<in> set (reorder s sources)"
      and "?k s a \<le> ?k s b"
    with Cons.prems show "?k (x # s) a \<le> ?k (x # s) b"
      by (auto simp: set_reorder)
  qed
  have head: "sorted_wrt (\<lambda>a b. ?k (x # s) a \<le> ?k (x # s) b)
                (filter (\<lambda>e. toString (entry_id e) = x) sources)"
    by (rule sorted_wrt_all) auto
  show ?case
    using head tail by (auto simp: reorder_Cons sorted_wrt_append)
qed

lemma dedup_snoc: "dedup (xs @ [x]) = (if x \<in> set xs then dedup xs else dedup xs @ [x])"
  by (simp add: dedup_def)

lemma set_dedup [simp]: "set (dedup xs) = set xs"
  by (simp add: dedup_def)

lemma first_index_dedup_mono:
  "a \<in> set xs \<Longrightarrow> b \<in> set xs \<Longrightarrow>
   first_index (dedup xs) a \<le> first_index (dedup xs) b \<Longrightarrow> first_index xs a \<le> first_index xs b"
proof (induction xs rule: rev_induct)
  case Nil
  then show ?case by simp
next
  case (snoc x xs)
  show ?case
  proof (cases "x \<in> set xs")
    case True
    with snoc show ?thesis by (auto simp: dedup_snoc first_index_append)
  next
    case False
    have lt: "\<And>c. c \<in> set xs \<Longrightarrow> first_index (dedup xs) c < length (dedup xs)"
      by (rule first_index_less) simp
    from False snoc lt [of a] lt [of b] first_index_le [of xs a] show ?thesis
      by (auto simp: dedup_snoc first_index_append split: if_splits)
  qed
qed

lemma reorder_mline_groups:
  "mtype m \<noteq> ''audio'' \<Longrightarrow> ssrcGroups m = Some gs \<Longrightarrow> gs \<noteq> [] \<Longrightarrow>
   reorder_mline m =
     (case collect_ssrcs gs of
        Inl e \<Rightarrow> Inl e
      | Inr s \<Rightarrow>
          (case ssrcs m of
             None \<Rightarrow> if s = [] then Inr (m\<lparr>ssrcs := Some []\<rparr>) else Inl TypeError
           | Some sources \<Rightarrow> Inr (m\<lparr>ssrcs := Some (reorder s sources)\<rparr>)))"
  by (cases gs) (simp_all add: reorder_mline_def)

lemma reorder_mline_idem:
  "reorder_mline m = Inr m' \<Longrightarrow> reorder_mline m' = Inr m'"
  by (auto simp: reorder_mline_def reorder_idem collect_ssrcs_distinct
      split: if_splits option.splits list.splits sum.splits)

lemma forEach_mline_idem:
  "(\<And>m m'. f m = Inr m' \<Longrightarrow> f m' = Inr m') \<Longrightarrow>
   forEach_mline f ms = Inr ms' \<Longrightarrow> forEach_mline f ms' = Inr ms'"
proof (induction ms arbitrary: ms')
  case Nil
  then show ?case by simp
next
  case (Cons m ms)
  then show ?case by (auto split: sum.splits)
qed

lemma forEach_mline_nth:
  "forEach_mline f ms = Inr ms' \<Longrightarrow>
   length ms' = length ms \<and> (\<forall>i < length ms. f (ms ! i) = Inr (ms' ! i))"
proof (induction ms arbitrary: ms')
  case Nil
  then show ?case by simp
next
  case (Cons m ms)
  from Cons.prems obtain m1 ms1 where parts: "f m = Inr m1" "forEach_mline f ms = Inr ms1" "ms' = m1 # ms1"
    by (auto split: sum.splits)
  from Cons.IH [OF parts(2)] parts(1,3) show ?case
    by (auto simp: nth_Cons split: nat.splits)
qed

lemma tokens_sim_fid: "all_tokens sim_fid_groups = [''11'', ''12'', ''11'', ''13'']"
  by (simp add: all_tokens_def members_def sim_fid_groups_def)

lemma member_list_sim_fid: "list_all member_list sim_fid_groups"
  by (simp add: member_list_def sim_fid_groups_def)

lemma dedup_sim_fid: "dedup (all_tokens sim_fid_groups) = [''11'', ''12'', ''13'']"
  by (simp add: tokens_sim_fid dedup_def)

lemma collect_sim_fid: "collect_ssrcs sim_fid_groups = Inr [''11'', ''12'', ''13'']"
  by (simp add: collect_ssrcs_eq member_list_sim_fid dedup_sim_fid)

lemma reorder_mline_single_member: "reorder_mline single_member_section = Inl TypeError"
  by (simp add: reorder_mline_def single_member_section_def collect_ssrcs_def group_tokens_def)

lemma video_section_sel:
  "mtype (video_section l) = ''video''" "ssrcs (video_section l) = Some l"
  "ssrcGroups (video_section l) = Some sim_fid_groups"
  "(video_section l)\<lparr>ssrcs := Some l'\<rparr> = video_section l'"
  "sim_fid_groups \<noteq> []"
  by (simp_all add: video_section_def sim_fid_groups_def)

lemma reorder_mline_video:
  "reorder_mline (video_section l) = Inr (video_section (reorder [''11'', ''12'', ''13''] l))"
  by (simp add: reorder_mline_groups [where gs = sim_fid_groups] video_section_sel collect_sim_fid)


lemma tok_simps:
  "toString (entry_id ssrc1) = ''11''" "toString (entry_id ssrc2) = ''12''"
  "toString (entry_id ssrc3) = ''13''" "toString (entry_id ssrc9) = ''19''"
  by (simp_all add: nat_toString.simps digit_char_def ssrc1_def ssrc2_def ssrc3_def ssrc9_def)

lemma reorder_examples:
  "reorder [''11'', ''12'', ''13''] [ssrc3, ssrc2, ssrc1] = [ssrc1, ssrc2, ssrc3]"
  "reorder [''11'', ''12'', ''13''] [ssrc1, ssrc3, ssrc2, ssrc9] = [ssrc1, ssrc2, ssrc3]"
  "reorder [''11'', ''12'', ''13''] [ssrc1, ssrc2, ssrc3] = [ssrc1, ssrc2, ssrc3]"
  by (simp_all add: reorder_def tok_simps)


text \<open>
  Claim C1, as the code has it. A section that is audio or has no ssrc-group passes
  through unchanged. For any other section with an ssrc list, whose groups carry their
  members as a string, the new list holds exactly the entries whose id, printed, is a
  member of some group: an entry that no group names is dropped, so the multiset of
  entries is the input's exactly when every entry is named by a group. The entries are
  ordered by the first appearance of their id in the groups' member lists, and the
  entries of one id keep the order of the input. \<^verbatim>\<open>ensureCorrectOrderOfSsrcs\<close> does this
  to every section of the parsed description and writes the result.
\<close>

theorem normalizeSsrcOrder_section:
  "(mtype m = ''audio'' \<or> ssrcGroups m = None \<or> ssrcGroups m = Some [] \<longrightarrow> reorder_mline m = Inr m) \<and>
   (mtype m \<noteq> ''audio'' \<and> ssrcGroups m = Some gs \<and> gs \<noteq> [] \<and> list_all member_list gs \<and>
    ssrcs m = Some sources \<longrightarrow>
      (let out = reorder (dedup (all_tokens gs)) sources in
         reorder_mline m = Inr (m\<lparr>ssrcs := Some out\<rparr>) \<and>
         mset out = mset (filter (\<lambda>e. toString (entry_id e) \<in> set (all_tokens gs)) sources) \<and>
         ((\<forall>e \<in> set sources. toString (entry_id e) \<in> set (all_tokens gs)) \<longrightarrow> mset out = mset sources) \<and>
         sorted_wrt (\<lambda>a b. first_index (all_tokens gs) (toString (entry_id a))
                           \<le> first_index (all_tokens gs) (toString (entry_id b))) out \<and>
         (\<forall>t. filter (\<lambda>e. toString (entry_id e) = t) out =
              (if t \<in> set (all_tokens gs) then filter (\<lambda>e. toString (entry_id e) = t) sources else [])))) \<and>
   (ensureCorrectOrderOfSsrcs parse write d = Inr d' \<longrightarrow>
      (\<exists>ms. d' = \<lparr>dtype = dtype d, sdp = write ((parse (sdp d))\<lparr>media := ms\<rparr>)\<rparr> \<and>
            length ms = length (media (parse (sdp d))) \<and>
            (\<forall>i < length ms. reorder_mline (media (parse (sdp d)) ! i) = Inr (ms ! i))))"
proof (intro conjI impI)
  assume "ensureCorrectOrderOfSsrcs parse write d = Inr d'"
  then obtain ms where ms: "forEach_mline reorder_mline (media (parse (sdp d))) = Inr ms"
    and d': "d' = \<lparr>dtype = dtype d, sdp = write ((parse (sdp d))\<lparr>media := ms\<rparr>)\<rparr>"
    by (auto simp: ensureCorrectOrderOfSsrcs_def Let_def split: sum.splits)
  from forEach_mline_nth [OF ms] d'
  show "\<exists>ms. d' = \<lparr>dtype = dtype d, sdp = write ((parse (sdp d))\<lparr>media := ms\<rparr>)\<rparr> \<and>
            length ms = length (media (parse (sdp d))) \<and>
            (\<forall>i < length ms. reorder_mline (media (parse (sdp d)) ! i) = Inr (ms ! i))"
    by auto
next
  assume "mtype m = ''audio'' \<or> ssrcGroups m = None \<or> ssrcGroups m = Some []"
  then show "reorder_mline m = Inr m"
    by (auto simp: reorder_mline_def)
next
  assume h: "mtype m \<noteq> ''audio'' \<and> ssrcGroups m = Some gs \<and> gs \<noteq> [] \<and> list_all member_list gs \<and>
             ssrcs m = Some sources"
  let ?s = "dedup (all_tokens gs)"
  let ?out = "reorder ?s sources"
  let ?k = "\<lambda>l e. first_index l (toString (entry_id e))"
  from h have "collect_ssrcs gs = Inr ?s"
    by (simp add: collect_ssrcs_eq)
  with h have run: "reorder_mline m = Inr (m\<lparr>ssrcs := Some ?out\<rparr>)"
    by (cases gs) (simp_all add: reorder_mline_def)
  have ms: "mset ?out = mset (filter (\<lambda>e. toString (entry_id e) \<in> set (all_tokens gs)) sources)"
    by (simp add: mset_reorder)
  have all: "(\<forall>e \<in> set sources. toString (entry_id e) \<in> set (all_tokens gs)) \<longrightarrow> mset ?out = mset sources"
    by (simp add: ms)
  have "sorted_wrt (\<lambda>a b. ?k ?s a \<le> ?k ?s b) ?out"
    by (rule sorted_reorder) simp
  then have ord: "sorted_wrt (\<lambda>a b. ?k (all_tokens gs) a \<le> ?k (all_tokens gs) b) ?out"
  proof (rule sorted_wrt_mono_rel [rotated])
    fix a b
    assume "a \<in> set ?out" "b \<in> set ?out" "?k ?s a \<le> ?k ?s b"
    then show "?k (all_tokens gs) a \<le> ?k (all_tokens gs) b"
      using first_index_dedup_mono [of "toString (entry_id a)" "all_tokens gs" "toString (entry_id b)"]
      by (simp add: set_reorder)
  qed
  have st: "\<forall>t. filter (\<lambda>e. toString (entry_id e) = t) ?out =
              (if t \<in> set (all_tokens gs) then filter (\<lambda>e. toString (entry_id e) = t) sources else [])"
    by (simp add: filter_reorder)
  show "let out = ?out in
         reorder_mline m = Inr (m\<lparr>ssrcs := Some out\<rparr>) \<and>
         mset out = mset (filter (\<lambda>e. toString (entry_id e) \<in> set (all_tokens gs)) sources) \<and>
         ((\<forall>e \<in> set sources. toString (entry_id e) \<in> set (all_tokens gs)) \<longrightarrow> mset out = mset sources) \<and>
         sorted_wrt (\<lambda>a b. ?k (all_tokens gs) a \<le> ?k (all_tokens gs) b) out \<and>
         (\<forall>t. filter (\<lambda>e. toString (entry_id e) = t) out =
              (if t \<in> set (all_tokens gs) then filter (\<lambda>e. toString (entry_id e) = t) sources else []))"
    unfolding Let_def using run ms all ord st by blast
qed

theorem normalizeSsrcOrder_section_witness:
  "mtype (video_section [ssrc3, ssrc2, ssrc1]) \<noteq> ''audio'' \<and>
   ssrcGroups (video_section [ssrc3, ssrc2, ssrc1]) = Some sim_fid_groups \<and> sim_fid_groups \<noteq> [] \<and>
   list_all member_list sim_fid_groups \<and>
   ssrcs (video_section [ssrc3, ssrc2, ssrc1]) = Some [ssrc3, ssrc2, ssrc1] \<and>
   list_all (\<lambda>e. toString (entry_id e) \<in> set (all_tokens sim_fid_groups)) [ssrc3, ssrc2, ssrc1] \<and>
   reorder_mline (video_section [ssrc3, ssrc2, ssrc1]) = Inr (video_section [ssrc1, ssrc2, ssrc3]) \<and>
   mset [ssrc1, ssrc2, ssrc3] = mset [ssrc3, ssrc2, ssrc1]"
proof -
  let ?m = "video_section [ssrc3, ssrc2, ssrc1]"
  let ?d = "\<lparr>dtype = ''offer'', sdp = \<lparr>media = [?m]\<rparr>\<rparr>"
  have h: "mtype ?m \<noteq> ''audio'' \<and> ssrcGroups ?m = Some sim_fid_groups \<and> sim_fid_groups \<noteq> [] \<and>
           list_all member_list sim_fid_groups \<and> ssrcs ?m = Some [ssrc3, ssrc2, ssrc1]"
    by (simp add: video_section_sel member_list_sim_fid)
  have every: "list_all (\<lambda>e. toString (entry_id e) \<in> set (all_tokens sim_fid_groups)) [ssrc3, ssrc2, ssrc1]"
    by (simp add: tok_simps tokens_sim_fid)
  from normalizeSsrcOrder_section
    [of ?m sim_fid_groups "[ssrc3, ssrc2, ssrc1]" "\<lambda>p. p" "\<lambda>p. p" ?d ?d] h
  have "let out = reorder (dedup (all_tokens sim_fid_groups)) [ssrc3, ssrc2, ssrc1] in
          reorder_mline ?m = Inr (?m\<lparr>ssrcs := Some out\<rparr>) \<and>
          mset out = mset (filter (\<lambda>e. toString (entry_id e) \<in> set (all_tokens sim_fid_groups))
                             [ssrc3, ssrc2, ssrc1]) \<and>
          ((\<forall>e \<in> set [ssrc3, ssrc2, ssrc1]. toString (entry_id e) \<in> set (all_tokens sim_fid_groups)) \<longrightarrow>
             mset out = mset [ssrc3, ssrc2, ssrc1]) \<and>
          sorted_wrt (\<lambda>a b. first_index (all_tokens sim_fid_groups) (toString (entry_id a))
                            \<le> first_index (all_tokens sim_fid_groups) (toString (entry_id b))) out \<and>
          (\<forall>t. filter (\<lambda>e. toString (entry_id e) = t) out =
               (if t \<in> set (all_tokens sim_fid_groups)
                then filter (\<lambda>e. toString (entry_id e) = t) [ssrc3, ssrc2, ssrc1] else []))"
    by blast
  then have "reorder_mline ?m = Inr (video_section [ssrc1, ssrc2, ssrc3]) \<and>
             mset [ssrc1, ssrc2, ssrc3] = mset [ssrc3, ssrc2, ssrc1]"
    using every by (simp add: dedup_sim_fid reorder_examples video_section_sel list_all_iff Let_def)
  with h every show ?thesis by simp
qed

text \<open>
  Claim C1 as stated fails: on the section with the groups SIM 11 12 and FID 11 13 and
  the entries 11, 13, 12, 19 the entry 19 is lost, and the members 11 and 13 of the FID
  group end up separated by 12.
\<close>

theorem normalizeSsrcOrder_multiset_counterexample:
  "reorder_mline (video_section [ssrc1, ssrc3, ssrc2, ssrc9]) = Inr (video_section [ssrc1, ssrc2, ssrc3]) \<and>
   mset [ssrc1, ssrc2, ssrc3] \<noteq> mset [ssrc1, ssrc3, ssrc2, ssrc9]"
proof
  show "reorder_mline (video_section [ssrc1, ssrc3, ssrc2, ssrc9]) = Inr (video_section [ssrc1, ssrc2, ssrc3])"
    by (simp add: reorder_mline_video reorder_examples)
  have "size (mset [ssrc1, ssrc2, ssrc3]) \<noteq> size (mset [ssrc1, ssrc3, ssrc2, ssrc9])"
    by simp
  then show "mset [ssrc1, ssrc2, ssrc3] \<noteq> mset [ssrc1, ssrc3, ssrc2, ssrc9]"
    by metis
qed

lemma read_back_sections:
  "l \<noteq> [] \<Longrightarrow> read_back \<lparr>media = [video_section l]\<rparr> = \<lparr>media = [video_section l]\<rparr>"
  "read_back \<lparr>media = [video_section []]\<rparr> = \<lparr>media = [(video_section [])\<lparr>ssrcs := None\<rparr>]\<rparr>"
  by (simp_all add: read_back_def read_back_mline_def video_section_sel)

lemma read_back_video_offer:
  "l \<noteq> [] \<Longrightarrow> read_back (sdp (video_offer l)) = sdp (video_offer l)"
  by (simp add: video_offer_def read_back_sections)

lemma reorder_mline_no_list:
  "reorder_mline ((video_section [])\<lparr>ssrcs := None\<rparr>) = Inl TypeError"
  by (simp add: reorder_mline_groups [where gs = sim_fid_groups] video_section_sel collect_sim_fid)

lemma normalise_video_offer:
  "l \<noteq> [] \<Longrightarrow>
   ensureCorrectOrderOfSsrcs read_back (\<lambda>p. p) (video_offer l) =
     Inr (video_offer (reorder [''11'', ''12'', ''13''] l))"
  by (simp add: ensureCorrectOrderOfSsrcs_def video_offer_def read_back_sections reorder_mline_video)

text \<open>
  Claim C9, as the code has it. The structure that the first application writes is a
  fixed point of the reordering: reordering its sections again changes nothing. The
  second application reads its input from the text, so it returns the description of
  the first whenever that description parses back to the structure that was written.
\<close>

theorem ensureCorrectOrderOfSsrcs_idempotent:
  assumes once: "ensureCorrectOrderOfSsrcs parse write d = Inr d'"
  shows "\<exists>ms. forEach_mline reorder_mline (media (parse (sdp d))) = Inr ms \<and>
              d' = \<lparr>dtype = dtype d, sdp = write ((parse (sdp d))\<lparr>media := ms\<rparr>)\<rparr> \<and>
              forEach_mline reorder_mline ms = Inr ms \<and>
              (parse (sdp d') = (parse (sdp d))\<lparr>media := ms\<rparr> \<longrightarrow>
                 ensureCorrectOrderOfSsrcs parse write d' = Inr d')"
proof -
  obtain ms where ms: "forEach_mline reorder_mline (media (parse (sdp d))) = Inr ms"
    and d': "d' = \<lparr>dtype = dtype d, sdp = write ((parse (sdp d))\<lparr>media := ms\<rparr>)\<rparr>"
    using once by (auto simp: ensureCorrectOrderOfSsrcs_def Let_def split: sum.splits)
  have fixed: "forEach_mline reorder_mline ms = Inr ms"
    using ms by (rule forEach_mline_idem [rotated]) (rule reorder_mline_idem)
  have "ensureCorrectOrderOfSsrcs parse write d' = Inr d'"
    if "parse (sdp d') = (parse (sdp d))\<lparr>media := ms\<rparr>"
    using that fixed by (simp add: ensureCorrectOrderOfSsrcs_def) (simp add: d')
  with ms d' fixed show ?thesis by blast
qed

theorem ensureCorrectOrderOfSsrcs_idempotent_witness:
  "ensureCorrectOrderOfSsrcs read_back (\<lambda>p. p) (video_offer [ssrc1, ssrc3, ssrc2, ssrc9]) =
     Inr (video_offer [ssrc1, ssrc2, ssrc3]) \<and>
   read_back (sdp (video_offer [ssrc1, ssrc2, ssrc3])) = sdp (video_offer [ssrc1, ssrc2, ssrc3]) \<and>
   ensureCorrectOrderOfSsrcs read_back (\<lambda>p. p) (video_offer [ssrc1, ssrc2, ssrc3]) =
     Inr (video_offer [ssrc1, ssrc2, ssrc3])"
proof -
  let ?d = "video_offer [ssrc1, ssrc3, ssrc2, ssrc9]"
  let ?e = "video_offer [ssrc1, ssrc2, ssrc3]"
  have once: "ensureCorrectOrderOfSsrcs read_back (\<lambda>p. p) ?d = Inr ?e"
    by (simp add: normalise_video_offer reorder_examples)
  have reads: "read_back (sdp ?e) = sdp ?e"
    by (simp add: read_back_video_offer)
  from ensureCorrectOrderOfSsrcs_idempotent [OF once]
  obtain ms where written: "?e = \<lparr>dtype = dtype ?d, sdp = (read_back (sdp ?d))\<lparr>media := ms\<rparr>\<rparr>"
    and again: "read_back (sdp ?e) = (read_back (sdp ?d))\<lparr>media := ms\<rparr> \<longrightarrow>
                ensureCorrectOrderOfSsrcs read_back (\<lambda>p. p) ?e = Inr ?e"
    by blast
  from arg_cong [OF written, of sdp] have "sdp ?e = (read_back (sdp ?d))\<lparr>media := ms\<rparr>"
    by simp
  with reads again have "ensureCorrectOrderOfSsrcs read_back (\<lambda>p. p) ?e = Inr ?e"
    by simp
  with once reads show ?thesis by simp
qed

text \<open>
  Claim C9 as stated fails. The groups of the section name 11, 12 and 13 and its only
  entry is 19: the first application empties the ssrc list, the text written has no
  ssrc line, the section read back has no ssrc list, and the second application throws
  at line 117.
\<close>

theorem ensureCorrectOrderOfSsrcs_reapply_counterexample:
  "ensureCorrectOrderOfSsrcs read_back (\<lambda>p. p) (video_offer [ssrc9]) = Inr (video_offer []) \<and>
   ensureCorrectOrderOfSsrcs read_back (\<lambda>p. p) (video_offer []) = Inl TypeError"
proof
  have "reorder [''11'', ''12'', ''13''] [ssrc9] = []"
    by (simp add: reorder_def tok_simps)
  then show "ensureCorrectOrderOfSsrcs read_back (\<lambda>p. p) (video_offer [ssrc9]) = Inr (video_offer [])"
    by (simp add: normalise_video_offer)
  show "ensureCorrectOrderOfSsrcs read_back (\<lambda>p. p) (video_offer []) = Inl TypeError"
    by (simp add: ensureCorrectOrderOfSsrcs_def video_offer_def read_back_sections reorder_mline_no_list)
qed

section \<open>Properties of insertUnifiedPlanSimulcastReceive\<close>

lemma findIndex_Some:
  "findIndex p xs = Some i \<Longrightarrow> i < length xs \<and> p (xs ! i) \<and> (\<forall>j<i. \<not> p (xs ! j))"
proof (induction xs arbitrary: i)
  case Nil
  then show ?case by simp
next
  case (Cons x xs)
  show ?case
  proof (cases "p x")
    case True
    with Cons.prems show ?thesis by simp
  next
    case False
    with Cons.prems obtain k where k: "findIndex p xs = Some k" "i = Suc k" by auto
    from Cons.IH [OF k(1)] False k(2) show ?thesis
      by (auto simp: nth_Cons split: nat.splits)
  qed
qed

lemma simulcastLine_values: "join '';'' SIM_LAYER_RIDS = ''1;2;3''"
  by (simp add: SIM_LAYER_RIDS_def SIM_LAYER_1_RID_def SIM_LAYER_2_RID_def SIM_LAYER_3_RID_def)

text \<open>
  Claim C8: on a browser that does not munge the SDP for simulcast, when the first
  video section has no rid, simulcast or simulcast_03 attribute, the description
  returned is the input with that one section changed: it has exactly the three rid
  entries 1, 2, 3, in this order and all with direction recv, and a simulcast_03
  attribute whose value is "recv rid=1;2;3", or "recv 1;2;3" on Firefox above
  version 71. Every other section is as it was.
\<close>

theorem insertUnifiedPlanSimulcastReceive_injects:
  assumes munging: "\<not> usesSdpMungingForSimulcast b"
    and first_video: "findIndex (\<lambda>mline. mtype mline = ''video'') (media (parse (sdp desc))) = Some idx"
    and no_rids: "rids (media (parse (sdp desc)) ! idx) = None"
    and no_simulcast: "simulcast (media (parse (sdp desc)) ! idx) = None"
    and no_simulcast_03: "simulcast_03 (media (parse (sdp desc)) ! idx) = None"
  shows "\<exists>ms. insertUnifiedPlanSimulcastReceive b parse write desc =
             Inr \<lparr>dtype = dtype desc, sdp = write ((parse (sdp desc))\<lparr>media := ms\<rparr>)\<rparr> \<and>
           length ms = length (media (parse (sdp desc))) \<and>
           idx < length ms \<and>
           (\<forall>j < length ms. j \<noteq> idx \<longrightarrow> ms ! j = media (parse (sdp desc)) ! j) \<and>
           (\<forall>j < idx. mtype (ms ! j) \<noteq> ''video'') \<and>
           mtype (ms ! idx) = ''video'' \<and>
           rids (ms ! idx) = Some [\<lparr>rid_id = ''1'', rid_direction = ''recv''\<rparr>,
                                   \<lparr>rid_id = ''2'', rid_direction = ''recv''\<rparr>,
                                   \<lparr>rid_id = ''3'', rid_direction = ''recv''\<rparr>] \<and>
           simulcast_03 (ms ! idx) =
             Some \<lparr>sim_value = (if isFirefox b \<and> isVersionGreaterThan b 71
                                 then ''recv 1;2;3'' else ''recv rid=1;2;3'')\<rparr> \<and>
           ssrcs (ms ! idx) = ssrcs (media (parse (sdp desc)) ! idx) \<and>
           ssrcGroups (ms ! idx) = ssrcGroups (media (parse (sdp desc)) ! idx) \<and>
           simulcast (ms ! idx) = None"
proof -
  let ?p = "parse (sdp desc)"
  let ?m = "media ?p ! idx"
  let ?line = "if isFirefox b \<and> isVersionGreaterThan b 71 then ''recv 1;2;3'' else ''recv rid=1;2;3''"
  let ?m' = "?m\<lparr>rids := Some [\<lparr>rid_id = ''1'', rid_direction = ''recv''\<rparr>,
                                \<lparr>rid_id = ''2'', rid_direction = ''recv''\<rparr>,
                                \<lparr>rid_id = ''3'', rid_direction = ''recv''\<rparr>],
                  simulcast_03 := Some \<lparr>sim_value = ?line\<rparr>\<rparr>"
  let ?ms = "(media ?p)[idx := ?m']"
  from findIndex_Some [OF first_video]
  have idx: "idx < length (media ?p)" and vid: "mtype ?m = ''video''"
    and before: "\<forall>j<idx. mtype (media ?p ! j) \<noteq> ''video''"
    by simp_all
  have run: "insertUnifiedPlanSimulcastReceive b parse write desc =
             Inr \<lparr>dtype = dtype desc, sdp = write (?p\<lparr>media := ?ms\<rparr>)\<rparr>"
    using munging first_video no_rids
    by (simp add: insertUnifiedPlanSimulcastReceive_def Let_def simulcastLine_values
        SIM_LAYER_1_RID_def SIM_LAYER_2_RID_def SIM_LAYER_3_RID_def)
  show ?thesis
    apply (rule exI [of _ ?ms])
    using run idx vid before no_simulcast
    by simp
qed

theorem insertUnifiedPlanSimulcastReceive_injects_witness:
  "\<not> usesSdpMungingForSimulcast (firefox 72) \<and>
   findIndex (\<lambda>mline. mtype mline = ''video'') (media (sdp offer)) = Some 1 \<and>
   rids (media (sdp offer) ! 1) = None \<and> simulcast (media (sdp offer) ! 1) = None \<and>
   simulcast_03 (media (sdp offer) ! 1) = None \<and>
   insertUnifiedPlanSimulcastReceive (firefox 72) (\<lambda>p. p) (\<lambda>p. p) offer =
     Inr \<lparr>dtype = ''offer'',
          sdp = \<lparr>media = [plain_section ''audio'',
                   (plain_section ''video'')
                     \<lparr>rids := Some [\<lparr>rid_id = ''1'', rid_direction = ''recv''\<rparr>,
                                    \<lparr>rid_id = ''2'', rid_direction = ''recv''\<rparr>,
                                    \<lparr>rid_id = ''3'', rid_direction = ''recv''\<rparr>],
                      simulcast_03 := Some \<lparr>sim_value = ''recv 1;2;3''\<rparr>\<rparr>]\<rparr>\<rparr>"
proof -
  have h1: "\<not> usesSdpMungingForSimulcast (firefox 72)" by (simp add: firefox_def)
  have h2: "findIndex (\<lambda>mline. mtype mline = ''video'') (media (sdp offer)) = Some 1"
    by (simp add: offer_def plain_section_def)
  have h3: "rids (media (sdp offer) ! 1) = None"
    and h4: "simulcast (media (sdp offer) ! 1) = None"
    and h5: "simulcast_03 (media (sdp offer) ! 1) = None"
    by (simp_all add: offer_def plain_section_def)
  from insertUnifiedPlanSimulcastReceive_injects
    [of "firefox 72" "\<lambda>p. p" offer 1 "\<lambda>p. p"]
    h1 h2 h3 h4 h5
  obtain ms where ms: "insertUnifiedPlanSimulcastReceive (firefox 72) (\<lambda>p. p) (\<lambda>p. p) offer =
      Inr \<lparr>dtype = dtype offer, sdp = (sdp offer)\<lparr>media := ms\<rparr>\<rparr>"
    by blast
  have run: "insertUnifiedPlanSimulcastReceive (firefox 72) (\<lambda>p. p) (\<lambda>p. p) offer =
     Inr \<lparr>dtype = ''offer'',
          sdp = \<lparr>media = [plain_section ''audio'',
                   (plain_section ''video'')
                     \<lparr>rids := Some [\<lparr>rid_id = ''1'', rid_direction = ''recv''\<rparr>,
                                    \<lparr>rid_id = ''2'', rid_direction = ''recv''\<rparr>,
                                    \<lparr>rid_id = ''3'', rid_direction = ''recv''\<rparr>],
                      simulcast_03 := Some \<lparr>sim_value = ''recv 1;2;3''\<rparr>\<rparr>]\<rparr>\<rparr>"
    using ms
    by (simp add: insertUnifiedPlanSimulcastReceive_def offer_def plain_section_def firefox_def
        simulcastLine_values SIM_LAYER_1_RID_def SIM_LAYER_2_RID_def SIM_LAYER_3_RID_def)
  from h1 h2 h3 h4 h5 run show ?thesis by simp
qed

section \<open>Properties of the simulcast layers and the encoding policy\<close>

lemma config_chrome_like:
  "\<not> isFirefox b \<Longrightarrow> localStreamEncodingsConfig b vb =
     [\<lparr>active = True, maxBitrate = Some (low vb), rid = Some ''1'', scaleResolutionDownBy = Some 4\<rparr>,
      \<lparr>active = True, maxBitrate = Some (standard vb), rid = Some ''2'', scaleResolutionDownBy = Some 2\<rparr>,
      \<lparr>active = True, maxBitrate = Some (high vb), rid = Some ''3'', scaleResolutionDownBy = Some 1\<rparr>]"
  by (simp add: localStreamEncodingsConfig_def SIM_LAYER_1_RID_def SIM_LAYER_2_RID_def SIM_LAYER_3_RID_def)

lemma config_firefox:
  "isFirefox b \<Longrightarrow> localStreamEncodingsConfig b vb =
     [\<lparr>active = True, maxBitrate = Some (high vb), rid = Some ''1'', scaleResolutionDownBy = Some 1\<rparr>,
      \<lparr>active = True, maxBitrate = Some (standard vb), rid = Some ''2'', scaleResolutionDownBy = Some 2\<rparr>,
      \<lparr>active = True, maxBitrate = Some (low vb), rid = Some ''3'', scaleResolutionDownBy = Some 4\<rparr>]"
  by (simp add: localStreamEncodingsConfig_def SIM_LAYER_1_RID_def SIM_LAYER_2_RID_def SIM_LAYER_3_RID_def)

text \<open>
  Claim C4: the startup configuration has the three layers 1, 2, 3, all active; scale
  factors 4, 2, 1 and bitrates low, standard, high, with the first and the last
  exchanged on Firefox. \<^verbatim>\<open>addTrack\<close> of a video track as initiator, on a browser other
  than Firefox and with simulcast on, creates the transceiver with exactly these three
  encodings.
\<close>

theorem startup_encodings:
  "map rid (localStreamEncodingsConfig b vb) = [Some ''1'', Some ''2'', Some ''3''] \<and>
   map active (localStreamEncodingsConfig b vb) = [True, True, True] \<and>
   map scaleResolutionDownBy (localStreamEncodingsConfig b vb) =
     (if isFirefox b then [Some 1, Some 2, Some 4] else [Some 4, Some 2, Some 1]) \<and>
   map maxBitrate (localStreamEncodingsConfig b vb) =
     (if isFirefox b then [Some (high vb), Some (standard vb), Some (low vb)]
      else [Some (low vb), Some (standard vb), Some (high vb)]) \<and>
   (\<not> isFirefox b \<and> isSimulcastOn pc \<and> isVideoTrack localTrack \<longrightarrow>
      addTrack b vb pc localTrack True =
        AddTransceiver (getTrack localTrack)
          \<lparr>init_direction = ''sendrecv'',
           streams = [getOriginalStream localTrack],
           sendEncodings =
             [\<lparr>active = True, maxBitrate = Some (low vb), rid = Some ''1'', scaleResolutionDownBy = Some 4\<rparr>,
              \<lparr>active = True, maxBitrate = Some (standard vb), rid = Some ''2'', scaleResolutionDownBy = Some 2\<rparr>,
              \<lparr>active = True, maxBitrate = Some (high vb), rid = Some ''3'', scaleResolutionDownBy = Some 1\<rparr>]\<rparr>)"
proof (cases "isFirefox b")
  case True
  then show ?thesis by (simp add: config_firefox)
next
  case False
  then show ?thesis by (simp add: config_chrome_like addTrack_def getStreamEncodings_def)
qed

theorem startup_encodings_witness:
  "\<not> isFirefox chrome \<and> isSimulcastOn (simulcast_pc empty_connection) \<and> isVideoTrack camera_720 \<and>
   addTrack chrome bitrates (simulcast_pc empty_connection) camera_720 True =
     AddTransceiver (Some cam_track)
       \<lparr>init_direction = ''sendrecv'',
        streams = [Some \<lparr>stream_id = ''s1''\<rparr>],
        sendEncodings =
          [\<lparr>active = True, maxBitrate = Some 200000, rid = Some ''1'', scaleResolutionDownBy = Some 4\<rparr>,
           \<lparr>active = True, maxBitrate = Some 500000, rid = Some ''2'', scaleResolutionDownBy = Some 2\<rparr>,
           \<lparr>active = True, maxBitrate = Some 1500000, rid = Some ''3'', scaleResolutionDownBy = Some 1\<rparr>]\<rparr>"
proof -
  have h: "\<not> isFirefox chrome \<and> isSimulcastOn (simulcast_pc empty_connection) \<and> isVideoTrack camera_720"
    by (simp add: chrome_def simulcast_pc_def camera_720_def)
  have sel: "getTrack camera_720 = Some cam_track" "getOriginalStream camera_720 = Some \<lparr>stream_id = ''s1''\<rparr>"
    "low bitrates = 200000" "standard bitrates = 500000" "high bitrates = 1500000"
    by (simp_all add: camera_720_def bitrates_def)
  from startup_encodings [of chrome bitrates "simulcast_pc empty_connection" camera_720] h
  show ?thesis by (simp add: sel)
qed

lemma active_camera:
  assumes "getVideoType t = CAMERA" "getTrack t = Some mt"
  shows "calculateEncodingsActiveState b vb pc t r =
     Inr (map (\<lambda>e. (r > 0 \<and> scaleResolutionDownBy e = Some 4)
                  \<or> js_le (js_div (height mt) (scaleResolutionDownBy e)) r)
            (localStreamEncodingsConfig b vb))"
proof -
  have ne: "CAMERA \<noteq> DESKTOP" by (simp add: CAMERA_def DESKTOP_def)
  show ?thesis
    using assms ne
    by (cases "isFirefox b")
       (simp_all add: calculateEncodingsActiveState_def config_firefox config_chrome_like
          LD_SCALE_FACTOR_def Let_def)
qed

text \<open>
  Claim C2: for a camera track with capture height \<open>h\<close> and requested height \<open>r\<close>,
  a layer of scale factor \<open>s\<close> is active iff \<open>h / s \<le> r\<close>, or \<open>s = 4\<close> and
  \<open>r > 0\<close>. For \<open>h = 720\<close>, \<open>r = 180\<close> and the scale factors 4, 2, 1 the flags are
  true, false, false.
\<close>

theorem calculateEncodingsActiveState_camera:
  assumes "getVideoType t = CAMERA" "getTrack t = Some mt" "height mt = Some h"
  shows "calculateEncodingsActiveState b vb pc t r =
           Inr (map (\<lambda>e. case scaleResolutionDownBy e of
                            None \<Rightarrow> False
                          | Some s \<Rightarrow> h / s \<le> r \<or> (s = 4 \<and> r > 0))
                  (localStreamEncodingsConfig b vb)) \<and>
         (\<not> isFirefox b \<longrightarrow>
            calculateEncodingsActiveState b vb pc t r = Inr [h / 4 \<le> r \<or> r > 0, h / 2 \<le> r, h \<le> r]) \<and>
         (isFirefox b \<longrightarrow>
            calculateEncodingsActiveState b vb pc t r = Inr [h \<le> r, h / 2 \<le> r, h / 4 \<le> r \<or> r > 0]) \<and>
         (\<not> isFirefox b \<and> h = 720 \<and> r = 180 \<longrightarrow>
            calculateEncodingsActiveState b vb pc t r = Inr [True, False, False])"
  using assms
  by (cases "isFirefox b")
     (auto simp: active_camera config_firefox config_chrome_like js_le_def js_div_def)

theorem calculateEncodingsActiveState_camera_witness:
  "getVideoType camera_720 = CAMERA \<and> getTrack camera_720 = Some cam_track \<and>
   height cam_track = Some 720 \<and> \<not> isFirefox chrome \<and>
   calculateEncodingsActiveState chrome bitrates (simulcast_pc empty_connection) camera_720 180 =
     Inr [True, False, False]"
proof -
  have h1: "getVideoType camera_720 = CAMERA" and h2: "getTrack camera_720 = Some cam_track"
    by (simp_all add: camera_720_def)
  have h3: "height cam_track = Some 720" by (simp add: cam_track_def)
  have h4: "\<not> isFirefox chrome" by (simp add: chrome_def)
  from calculateEncodingsActiveState_camera
    [OF h1 h2 h3, of chrome bitrates "simulcast_pc empty_connection" 180] h4
  have "calculateEncodingsActiveState chrome bitrates (simulcast_pc empty_connection) camera_720 180 =
          Inr [True, False, False]"
    by blast
  with h1 h2 h3 h4 show ?thesis by simp
qed

lemma length_config: "length (localStreamEncodingsConfig b vb) = 3"
  by (simp add: localStreamEncodingsConfig_def)

text \<open>
  Claim C7, as the code has it: in low-fps screenshare mode on a browser that is not
  WebKit based the three bitrates are the same: \<^verbatim>\<open>HD_BITRATE\<close> when the original
  stream exists and its id is not the track's stream id, and otherwise the desktop
  bitrate of the connection's options when one is configured and not zero, the default
  \<^verbatim>\<open>DESKTOP_SHARE_RATE\<close> when none is.
\<close>

theorem calculateEncodingsBitrates_lowfps:
  assumes "isSharingLowFpsScreen pc" "\<not> isWebKitBased b"
  shows "calculateEncodingsBitrates HD_BITRATE DESKTOP_SHARE_RATE b vb pc t =
           (if presenterEnabled t
            then [Some HD_BITRATE, Some HD_BITRATE, Some HD_BITRATE]
            else [Some (desktopShareBitrate DESKTOP_SHARE_RATE pc),
                  Some (desktopShareBitrate DESKTOP_SHARE_RATE pc),
                  Some (desktopShareBitrate DESKTOP_SHARE_RATE pc)]) \<and>
         presenterEnabled t =
           (case originalStream t of None \<Rightarrow> False | Some s \<Rightarrow> Some (stream_id s) \<noteq> getStreamId t) \<and>
         desktopShareBitrate DESKTOP_SHARE_RATE pc =
           (case Option.bind (Option.bind (options pc) videoQuality) desktopBitrate of
              None \<Rightarrow> DESKTOP_SHARE_RATE
            | Some r \<Rightarrow> if r = 0 then DESKTOP_SHARE_RATE else r)"
proof (intro conjI)
  show "calculateEncodingsBitrates HD_BITRATE DESKTOP_SHARE_RATE b vb pc t =
           (if presenterEnabled t
            then [Some HD_BITRATE, Some HD_BITRATE, Some HD_BITRATE]
            else [Some (desktopShareBitrate DESKTOP_SHARE_RATE pc),
                  Some (desktopShareBitrate DESKTOP_SHARE_RATE pc),
                  Some (desktopShareBitrate DESKTOP_SHARE_RATE pc)])"
    using assms by (simp add: calculateEncodingsBitrates_def localStreamEncodingsConfig_def)
  show "presenterEnabled t =
           (case originalStream t of None \<Rightarrow> False | Some s \<Rightarrow> Some (stream_id s) \<noteq> getStreamId t)"
    by (simp add: presenterEnabled_def)
  show "desktopShareBitrate DESKTOP_SHARE_RATE pc =
           (case Option.bind (Option.bind (options pc) videoQuality) desktopBitrate of
              None \<Rightarrow> DESKTOP_SHARE_RATE
            | Some r \<Rightarrow> if r = 0 then DESKTOP_SHARE_RATE else r)"
    by (simp add: desktopShareBitrate_def split: option.splits)
qed

theorem calculateEncodingsBitrates_lowfps_witness:
  "isSharingLowFpsScreen (lowfps_pc None) \<and> \<not> isWebKitBased chrome \<and>
   calculateEncodingsBitrates 2500000 500000 chrome bitrates (lowfps_pc None)
     (desktop_track (Some \<lparr>stream_id = ''s1''\<rparr>)) = [Some 2500000, Some 2500000, Some 2500000] \<and>
   calculateEncodingsBitrates 2500000 500000 chrome bitrates (lowfps_pc None)
     (desktop_track (Some \<lparr>stream_id = ''s2''\<rparr>)) = [Some 500000, Some 500000, Some 500000]"
proof -
  have h1: "isSharingLowFpsScreen (lowfps_pc None)" by (simp add: lowfps_pc_def)
  have h2: "\<not> isWebKitBased chrome" by (simp add: chrome_def)
  have p1: "presenterEnabled (desktop_track (Some \<lparr>stream_id = ''s1''\<rparr>))"
    and p2: "\<not> presenterEnabled (desktop_track (Some \<lparr>stream_id = ''s2''\<rparr>))"
    and d: "desktopShareBitrate 500000 (lowfps_pc None) = 500000"
    by (simp_all add: presenterEnabled_def desktop_track_def desktopShareBitrate_def lowfps_pc_def)
  from calculateEncodingsBitrates_lowfps [OF h1 h2, of 2500000 500000 bitrates "desktop_track (Some \<lparr>stream_id = ''s1''\<rparr>)"]
    calculateEncodingsBitrates_lowfps [OF h1 h2, of 2500000 500000 bitrates "desktop_track (Some \<lparr>stream_id = ''s2''\<rparr>)"]
    h1 h2 p1 p2 d
  show ?thesis by simp
qed

text \<open>
  Claim C7 as stated fails when the options configure a desktop bitrate: with
  1000000 configured and no presenter, the three entries are 1000000 and not the
  default rate 500000.
\<close>

theorem calculateEncodingsBitrates_configured_counterexample:
  "isSharingLowFpsScreen (lowfps_pc (Some 1000000)) \<and> \<not> isWebKitBased chrome \<and>
   \<not> presenterEnabled (desktop_track None) \<and>
   calculateEncodingsBitrates 2500000 500000 chrome bitrates (lowfps_pc (Some 1000000)) (desktop_track None) =
     [Some 1000000, Some 1000000, Some 1000000] \<and>
   calculateEncodingsBitrates 2500000 500000 chrome bitrates (lowfps_pc (Some 1000000)) (desktop_track None) \<noteq>
     [Some 500000, Some 500000, Some 500000]"
  by (simp add: calculateEncodingsBitrates_def localStreamEncodingsConfig_def presenterEnabled_def
      desktop_track_def desktopShareBitrate_def lowfps_pc_def chrome_def)

section \<open>Properties of the transceiver binder\<close>

lemma find_index_Some:
  "find_index p xs = Inr (Some i) \<Longrightarrow>
   i < length xs \<and> p (xs ! i) = Inr True \<and> (\<forall>j<i. p (xs ! j) = Inr False)"
proof (induction xs arbitrary: i)
  case Nil
  then show ?case by simp
next
  case (Cons x xs)
  show ?case
  proof (cases "p x")
    case (Inl e)
    with Cons.prems show ?thesis by simp
  next
    case (Inr keep)
    show ?thesis
    proof (cases keep)
      case True
      with Inr Cons.prems show ?thesis by simp
    next
      case False
      with Inr Cons.prems obtain k where k: "find_index p xs = Inr (Some k)" "i = Suc k"
        by (auto split: sum.splits option.splits)
      from Cons.IH [OF k(1)] Inr False k(2) show ?thesis
        by (auto simp: nth_Cons split: nat.splits)
    qed
  qed
qed

lemma find_index_pure:
  "(\<And>x. x \<in> set xs \<Longrightarrow> p x = Inr (P x)) \<Longrightarrow> find_index p xs = Inr (findIndex P xs)"
proof (induction xs)
  case Nil
  then show ?case by simp
next
  case (Cons x xs)
  then show ?case by (cases "findIndex P xs") auto
qed

lemma findIndex_None: "findIndex P xs = None \<longleftrightarrow> (\<forall>x\<in>set xs. \<not> P x)"
  by (induction xs) auto

lemma upt_Suc_shift: "[0..<Suc n] = 0 # map Suc [0..<n]"
  by (simp add: upt_conv_Cons map_Suc_upt del: upt_Suc)

lemma filter_indices_pure:
  "(\<And>x. x \<in> set xs \<Longrightarrow> p x = Inr (P x)) \<Longrightarrow>
   filter_indices p n xs = Inr (map (\<lambda>i. n + i) (filter (\<lambda>i. P (xs ! i)) [0..<length xs]))"
proof (induction xs arbitrary: n)
  case Nil
  then show ?case by simp
next
  case (Cons x xs)
  have "filter_indices p (Suc n) xs =
          Inr (map (\<lambda>i. Suc n + i) (filter (\<lambda>i. P (xs ! i)) [0..<length xs]))"
    by (rule Cons.IH) (simp add: Cons.prems)
  moreover have "p x = Inr (P x)" by (simp add: Cons.prems)
  ultimately show ?case
    by (simp add: upt_Suc_shift filter_map comp_def del: upt_Suc)
qed

lemma receiver_kind_guarded_pure:
  "receiver_kind_guarded mediaType t = Inr (of_kind (Some mediaType) t)"
  by (simp add: receiver_kind_guarded_def of_kind_def split: option.splits)

lemma receiver_kind_pure:
  "has_receiver_track t \<Longrightarrow> receiver_kind mediaType t = Inr (of_kind mediaType t)"
  by (auto simp: receiver_kind_def of_kind_def has_receiver_track_def split: option.splits)

lemma recvonly_inactive_pure:
  "has_receiver_track t \<Longrightarrow> recvonly_inactive mediaType t = Inr (placeholder mediaType t)"
  by (simp add: recvonly_inactive_def receiver_kind_pure placeholder_def RECVONLY_def INACTIVE_def)

lemma recvonly_inactive_True:
  "recvonly_inactive mediaType t = Inr True \<Longrightarrow> placeholder mediaType t"
  by (auto simp: recvonly_inactive_def receiver_kind_def placeholder_def of_kind_def
      RECVONLY_def INACTIVE_def split: option.splits sum.splits)

lemma recvonly_inactive_False:
  "recvonly_inactive mediaType t = Inr False \<Longrightarrow> \<not> placeholder mediaType t"
  by (auto simp: recvonly_inactive_def receiver_kind_def placeholder_def of_kind_def
      RECVONLY_def INACTIVE_def split: option.splits sum.splits)

lemma kind_not_recvonly_pure:
  "has_receiver_track t \<Longrightarrow>
   kind_not_recvonly mediaType t = Inr (of_kind mediaType t \<and> direction t \<noteq> ''recvonly'')"
  by (simp add: kind_not_recvonly_def receiver_kind_pure RECVONLY_def)

lemma select_new_source:
  "isNewLocalSource multiStream pc None (Some newTrack) \<Longrightarrow>
   select_transceiver Number multiStream pc None (Some newTrack) =
     find_index (recvonly_inactive (mediaType_of None (Some newTrack))) (getTransceivers (peerconnection pc))"
  by (simp add: select_transceiver_def Let_def)

text \<open>
  Claim C5: when \<^verbatim>\<open>replaceTrack(null, newTrack)\<close> adds a new local source in multi-stream
  mode, a transceiver it binds the track to is of the track's kind, has direction
  recvonly and negotiated direction inactive (so it is not sendrecv), and is the first
  such transceiver. When every transceiver has a receiver track and none is such a
  placeholder, the promise is rejected with "replace track failed"; when every
  transceiver also has a sender, the call binds the first placeholder or is rejected.
\<close>

theorem replaceTrack_new_source:
  assumes new: "isNewLocalSource multiStream pc None (Some newTrack)"
  shows "(\<forall>i tr. replaceTrack Number multiStream pc None (Some newTrack) = Transport (SenderReplaceTrack i tr) \<longrightarrow>
            i < length (getTransceivers (peerconnection pc)) \<and>
            direction (getTransceivers (peerconnection pc) ! i) = ''recvonly'' \<and>
            currentDirection (getTransceivers (peerconnection pc) ! i) = Some ''inactive'' \<and>
            direction (getTransceivers (peerconnection pc) ! i) \<noteq> ''sendrecv'' \<and>
            of_kind (mediaType_of None (Some newTrack)) (getTransceivers (peerconnection pc) ! i) \<and>
            (\<forall>j<i. \<not> placeholder (mediaType_of None (Some newTrack)) (getTransceivers (peerconnection pc) ! j)) \<and>
            tr = getTrack newTrack) \<and>
         ((\<forall>t \<in> set (getTransceivers (peerconnection pc)).
              has_receiver_track t \<and> \<not> placeholder (mediaType_of None (Some newTrack)) t) \<longrightarrow>
            replaceTrack Number multiStream pc None (Some newTrack) = Rejects ''replace track failed'') \<and>
         ((\<forall>t \<in> set (getTransceivers (peerconnection pc)). has_receiver_track t \<and> sender t \<noteq> None) \<longrightarrow>
            replaceTrack Number multiStream pc None (Some newTrack) =
              bound_to (findIndex (placeholder (mediaType_of None (Some newTrack)))
                          (getTransceivers (peerconnection pc)))
                (getTrack newTrack))"
proof (intro conjI allI impI)
  let ?ts = "getTransceivers (peerconnection pc)"
  let ?mt = "mediaType_of None (Some newTrack)"
  let ?r = "replaceTrack Number multiStream pc None (Some newTrack)"
  note sel = select_new_source [OF new, of Number]
  {
    fix i tr
    assume run: "?r = Transport (SenderReplaceTrack i tr)"
    then have found: "find_index (recvonly_inactive ?mt) ?ts = Inr (Some i)" and tr: "tr = getTrack newTrack"
      by (auto simp: replaceTrack_def sel Let_def split: sum.splits option.splits)
    from find_index_Some [OF found]
    have i: "i < length ?ts" and hit: "recvonly_inactive ?mt (?ts ! i) = Inr True"
      and before: "\<forall>j<i. recvonly_inactive ?mt (?ts ! j) = Inr False"
      by simp_all
    from recvonly_inactive_True [OF hit] have ph: "placeholder ?mt (?ts ! i)" .
    show "i < length ?ts" by (rule i)
    show "direction (?ts ! i) = ''recvonly''" using ph by (simp add: placeholder_def)
    show "currentDirection (?ts ! i) = Some ''inactive''" using ph by (simp add: placeholder_def)
    show "direction (?ts ! i) \<noteq> ''sendrecv''" using ph by (simp add: placeholder_def)
    show "of_kind ?mt (?ts ! i)" using ph by (simp add: placeholder_def)
    show "tr = getTrack newTrack" by (rule tr)
    fix j assume "j < i"
    with before show "\<not> placeholder ?mt (?ts ! j)" by (simp add: recvonly_inactive_False)
  }
  {
    assume none: "\<forall>t \<in> set ?ts. has_receiver_track t \<and> \<not> placeholder ?mt t"
    then have "find_index (recvonly_inactive ?mt) ?ts = Inr (findIndex (placeholder ?mt) ?ts)"
      by (intro find_index_pure) (simp add: recvonly_inactive_pure)
    moreover have "findIndex (placeholder ?mt) ?ts = None"
      using none by (simp add: findIndex_None)
    ultimately show "?r = Rejects ''replace track failed''"
      by (simp add: replaceTrack_def sel)
  }
  {
    assume wf: "\<forall>t \<in> set ?ts. has_receiver_track t \<and> sender t \<noteq> None"
    then have found: "find_index (recvonly_inactive ?mt) ?ts = Inr (findIndex (placeholder ?mt) ?ts)"
      by (intro find_index_pure) (simp add: recvonly_inactive_pure)
    show "?r = bound_to (findIndex (placeholder ?mt) ?ts) (getTrack newTrack)"
    proof (cases "findIndex (placeholder ?mt) ?ts")
      case None
      then show ?thesis by (simp add: replaceTrack_def sel found bound_to_def)
    next
      case (Some i)
      then have "i < length ?ts" by (simp add: findIndex_Some)
      with wf have "sender (?ts ! i) \<noteq> None" by simp
      with Some show ?thesis
        by (auto simp: replaceTrack_def sel found bound_to_def Let_def)
    qed
  }
qed

lemma video_transceiver_facts:
  "has_receiver_track (video_transceiver d c s)"
  "sender (video_transceiver d c s) \<noteq> None"
  "\<exists>y. sender (video_transceiver d c s) = Some y"
  "of_kind mt (video_transceiver d c s) = (mt = Some ''video'')"
  "direction (video_transceiver d c s) = d"
  "currentDirection (video_transceiver d c s) = c"
  by (auto simp: video_transceiver_def has_receiver_track_def of_kind_def remote_video_def)

lemma camera_720_sel:
  "getType camera_720 = ''video''" "getTrack camera_720 = Some cam_track"
  "conference camera_720 = None" "getSourceName camera_720 = Some ''ep-v0''"
  "getTrackId camera_720 = Some ''cam''"
  by (simp_all add: camera_720_def)

lemma desktop_track_sel:
  "getType (desktop_track s) = ''video''" "getOriginalStream (desktop_track s) = s"
  "conference (desktop_track s) = None" "getSourceName (desktop_track s) = Some ''ep-v1''"
  by (simp_all add: desktop_track_def)

theorem replaceTrack_new_source_witness:
  "isNewLocalSource True multi_stream_pc None (Some (desktop_track None)) \<and>
   replaceTrack Number_decimal True multi_stream_pc None (Some (desktop_track None)) =
     Transport (SenderReplaceTrack 1 (getTrack (desktop_track None))) \<and>
   direction (getTransceivers (peerconnection multi_stream_pc) ! 1) = ''recvonly'' \<and>
   currentDirection (getTransceivers (peerconnection multi_stream_pc) ! 1) = Some ''inactive''"
proof -
  have mt: "mediaType_of None (Some (desktop_track None)) = Some ''video''"
    by (simp add: mediaType_of_def truthy_string_def desktop_track_sel)
  have new: "isNewLocalSource True multi_stream_pc None (Some (desktop_track None))"
    by (simp add: isNewLocalSource_def mt multi_stream_pc_def desktop_track_sel)
  have ts: "getTransceivers (peerconnection multi_stream_pc) =
      [video_transceiver ''sendrecv'' (Some ''sendrecv'') (Some cam_track),
       video_transceiver ''recvonly'' (Some ''inactive'') None]"
    by (simp add: multi_stream_pc_def connection_of_def)
  have wf: "\<forall>t \<in> set (getTransceivers (peerconnection multi_stream_pc)). has_receiver_track t \<and> sender t \<noteq> None"
    by (simp add: ts video_transceiver_facts)
  have idx: "findIndex (placeholder (Some ''video'')) (getTransceivers (peerconnection multi_stream_pc)) = Some 1"
    by (simp add: ts placeholder_def video_transceiver_facts)
  from replaceTrack_new_source [OF new, of Number_decimal] wf
  have "replaceTrack Number_decimal True multi_stream_pc None (Some (desktop_track None)) =
          bound_to (findIndex (placeholder (mediaType_of None (Some (desktop_track None))))
                      (getTransceivers (peerconnection multi_stream_pc)))
            (getTrack (desktop_track None))"
    by blast
  then have "replaceTrack Number_decimal True multi_stream_pc None (Some (desktop_track None)) =
     Transport (SenderReplaceTrack 1 (getTrack (desktop_track None)))"
    by (simp add: mt idx bound_to_def)
  with new show ?thesis by (simp add: ts video_transceiver_facts)
qed

lemma select_mute_unmute:
  assumes "\<not> (case oldTrack of None \<Rightarrow> False | Some old \<Rightarrow> \<not> isMuted old)"
    and "\<not> isNewLocalSource multiStream pc oldTrack newTrack"
  shows "select_transceiver Number multiStream pc oldTrack newTrack =
           select_by_source_name Number (mediaType_of oldTrack newTrack)
             (sourceName_of oldTrack newTrack) (getTransceivers (peerconnection pc))"
  using assms by (simp add: select_transceiver_def Let_def)

lemma replaceTrack_bound:
  assumes "select_transceiver Number multiStream pc oldTrack newTrack = Inr selected"
    and "\<forall>t \<in> set (getTransceivers (peerconnection pc)). sender t \<noteq> None"
    and "\<And>i. selected = Some i \<Longrightarrow> i < length (getTransceivers (peerconnection pc))"
  shows "replaceTrack Number multiStream pc oldTrack newTrack =
           bound_to selected (Option.bind newTrack getTrack)"
proof (cases selected)
  case None
  with assms(1) show ?thesis by (simp add: replaceTrack_def bound_to_def)
next
  case (Some i)
  with assms(3) have "i < length (getTransceivers (peerconnection pc))" by simp
  with assms(2) have "sender (getTransceivers (peerconnection pc) ! i) \<noteq> None" by simp
  with Some assms(1) show ?thesis by (auto simp: replaceTrack_def bound_to_def Let_def)
qed

lemma sending_positions_less:
  "i \<in> set (sending_positions mt ts) \<Longrightarrow> i < length ts"
  by (simp add: sending_positions_def)

lemma select_by_source_name_pure:
  assumes wf: "\<forall>t \<in> set ts. has_receiver_track t"
  shows "select_by_source_name Number mt sn ts =
     (case sn of
        None \<Rightarrow> Inr (findIndex (of_kind mt) ts)
      | Some name \<Rightarrow>
          if name = [] then Inr (findIndex (of_kind mt) ts)
          else (case split CHR ''-'' name of
                  _ # part # _ \<Rightarrow>
                    if truthy (Number (drop 1 part))
                    then Inr (array_get (sending_positions mt ts) (Number (drop 1 part)))
                    else Inr (findIndex (of_kind mt) ts)
                | _ \<Rightarrow> Inl TypeError))"
proof -
  have first: "find_index (receiver_kind mt) ts = Inr (findIndex (of_kind mt) ts)"
    using wf by (intro find_index_pure) (simp add: receiver_kind_pure)
  have "filter_indices (kind_not_recvonly mt) 0 ts =
          Inr (map (\<lambda>i. 0 + i)
                 (filter (\<lambda>i. of_kind mt (ts ! i) \<and> direction (ts ! i) \<noteq> ''recvonly'') [0..<length ts]))"
    using wf by (intro filter_indices_pure) (simp add: kind_not_recvonly_pure)
  then have rest: "filter_indices (kind_not_recvonly mt) 0 ts = Inr (sending_positions mt ts)"
    by (simp add: sending_positions_def)
  show ?thesis
    by (simp add: select_by_source_name_def first rest Let_def split: option.splits list.splits)
qed

text \<open>
  Claim C6, as the code has it. In the mute/unmute branch, on transceivers that all have
  a receiver track and a sender: without a source name the first transceiver of the
  media kind is taken. With a source name whose second piece between hyphens, less its
  first character, converts to a whole number \<open>n\<close>: for \<open>n \<noteq> 0\<close> the transceiver
  at index \<open>n\<close> among those of the kind that are not recvonly is taken (the promise is
  rejected when there are not that many); for \<open>n = 0\<close>, or when the conversion gives
  \<^verbatim>\<open>NaN\<close>, the first transceiver of the kind is taken, whatever its direction.
\<close>

theorem replaceTrack_mute_unmute:
  assumes not_old: "\<not> (case oldTrack of None \<Rightarrow> False | Some old \<Rightarrow> \<not> isMuted old)"
    and not_new: "\<not> isNewLocalSource multiStream pc oldTrack newTrack"
    and wf: "\<forall>t \<in> set (getTransceivers (peerconnection pc)). has_receiver_track t \<and> sender t \<noteq> None"
  shows "(\<not> truthy_string (sourceName_of oldTrack newTrack) \<longrightarrow>
            replaceTrack Number multiStream pc oldTrack newTrack =
              bound_to (findIndex (of_kind (mediaType_of oldTrack newTrack)) (getTransceivers (peerconnection pc)))
                (Option.bind newTrack getTrack)) \<and>
         (\<forall>name pre part rest.
            sourceName_of oldTrack newTrack = Some name \<and> name \<noteq> [] \<and>
            split CHR ''-'' name = pre # part # rest \<longrightarrow>
              (\<forall>n. Number (drop 1 part) = Whole n \<and> n \<noteq> 0 \<longrightarrow>
                 replaceTrack Number multiStream pc oldTrack newTrack =
                   bound_to
                     (if n < length (sending_positions (mediaType_of oldTrack newTrack)
                                       (getTransceivers (peerconnection pc)))
                      then Some (sending_positions (mediaType_of oldTrack newTrack)
                                   (getTransceivers (peerconnection pc)) ! n)
                      else None)
                     (Option.bind newTrack getTrack)) \<and>
              (Number (drop 1 part) = Whole 0 \<or> Number (drop 1 part) = NaN \<longrightarrow>
                 replaceTrack Number multiStream pc oldTrack newTrack =
                   bound_to (findIndex (of_kind (mediaType_of oldTrack newTrack))
                               (getTransceivers (peerconnection pc)))
                     (Option.bind newTrack getTrack)))"
proof -
  let ?ts = "getTransceivers (peerconnection pc)"
  let ?mt = "mediaType_of oldTrack newTrack"
  let ?sn = "sourceName_of oldTrack newTrack"
  let ?tr = "Option.bind newTrack getTrack"
  let ?r = "replaceTrack Number multiStream pc oldTrack newTrack"
  have wf1: "\<forall>t \<in> set ?ts. has_receiver_track t" and wf2: "\<forall>t \<in> set ?ts. sender t \<noteq> None"
    using wf by simp_all
  have sel: "select_transceiver Number multiStream pc oldTrack newTrack =
               select_by_source_name Number ?mt ?sn ?ts"
    by (rule select_mute_unmute [OF not_old not_new])
  have first: "select_transceiver Number multiStream pc oldTrack newTrack = Inr (findIndex (of_kind ?mt) ?ts)
               \<Longrightarrow> ?r = bound_to (findIndex (of_kind ?mt) ?ts) ?tr"
    by (rule replaceTrack_bound [OF _ wf2]) (simp_all add: findIndex_Some)
  have nth: "?r = bound_to (if n < length (sending_positions ?mt ?ts)
                            then Some (sending_positions ?mt ?ts ! n) else None) ?tr"
    if "select_transceiver Number multiStream pc oldTrack newTrack =
          Inr (if n < length (sending_positions ?mt ?ts) then Some (sending_positions ?mt ?ts ! n) else None)"
    for n
  proof (rule replaceTrack_bound [OF that wf2])
    fix i
    assume "(if n < length (sending_positions ?mt ?ts)
             then Some (sending_positions ?mt ?ts ! n) else None) = Some i"
    then have "i \<in> set (sending_positions ?mt ?ts)"
      by (auto split: if_splits)
    then show "i < length ?ts" by (rule sending_positions_less)
  qed
  have a: "\<not> truthy_string ?sn \<longrightarrow> ?r = bound_to (findIndex (of_kind ?mt) ?ts) ?tr"
  proof
    assume "\<not> truthy_string ?sn"
    then have "select_by_source_name Number ?mt ?sn ?ts = Inr (findIndex (of_kind ?mt) ?ts)"
      by (simp add: select_by_source_name_pure [OF wf1] truthy_string_def split: option.splits)
    with sel show "?r = bound_to (findIndex (of_kind ?mt) ?ts) ?tr"
      by (intro first) simp
  qed
  have b: "?r = bound_to (if n < length (sending_positions ?mt ?ts)
                           then Some (sending_positions ?mt ?ts ! n) else None) ?tr"
    if "?sn = Some name" "name \<noteq> []" "split CHR ''-'' name = pre # part # rest"
      "Number (drop 1 part) = Whole n" "n \<noteq> 0"
    for name pre part rest n
  proof (rule nth)
    show "select_transceiver Number multiStream pc oldTrack newTrack =
          Inr (if n < length (sending_positions ?mt ?ts) then Some (sending_positions ?mt ?ts ! n) else None)"
      using that by (simp add: sel select_by_source_name_pure [OF wf1] truthy_def array_get_def)
  qed
  have c: "?r = bound_to (findIndex (of_kind ?mt) ?ts) ?tr"
    if "?sn = Some name" "name \<noteq> []" "split CHR ''-'' name = pre # part # rest"
      "Number (drop 1 part) = Whole 0 \<or> Number (drop 1 part) = NaN"
    for name pre part rest
  proof (rule first)
    show "select_transceiver Number multiStream pc oldTrack newTrack = Inr (findIndex (of_kind ?mt) ?ts)"
      using that by (auto simp: sel select_by_source_name_pure [OF wf1] truthy_def)
  qed
  from a b c show ?thesis by blast
qed

lemma muted_start_facts:
  "getTransceivers (peerconnection muted_start_pc) = muted_start"
  "\<forall>t \<in> set muted_start. has_receiver_track t \<and> sender t \<noteq> None"
  "sending_positions (Some ''video'') muted_start = [1, 2]"
  "findIndex (of_kind (Some ''video'')) muted_start = Some 0"
  "direction (muted_start ! 0) = ''recvonly''"
  by (simp_all add: muted_start_pc_def connection_of_def muted_start_def video_transceiver_facts
      sending_positions_def upt_conv_Cons del: upt_Suc)

lemma mute_unmute_branch:
  "\<not> (case None :: local_track option of None \<Rightarrow> False | Some old \<Rightarrow> \<not> isMuted old)"
  "\<not> isNewLocalSource False pc None (Some t)"
  by (simp_all add: isNewLocalSource_def)

lemma Number_decimal_values:
  "Number_decimal ''0'' = Whole 0" "Number_decimal ''1'' = Whole 1"
  by (simp_all add: Number_decimal_def)

theorem replaceTrack_mute_unmute_witness:
  "\<not> isNewLocalSource False muted_start_pc None (Some (desktop_track None)) \<and>
   sourceName_of None (Some (desktop_track None)) = Some ''ep-v1'' \<and>
   split CHR ''-'' ''ep-v1'' = [''ep'', ''v1''] \<and>
   Number_decimal (drop 1 ''v1'') = Whole 1 \<and>
   sending_positions (Some ''video'') (getTransceivers (peerconnection muted_start_pc)) = [1, 2] \<and>
   replaceTrack Number_decimal False muted_start_pc None (Some (desktop_track None)) =
     Transport (SenderReplaceTrack 2 (getTrack (desktop_track None)))"
proof -
  have mt: "mediaType_of None (Some (desktop_track None)) = Some ''video''"
    by (simp add: mediaType_of_def truthy_string_def desktop_track_sel)
  have sn: "sourceName_of None (Some (desktop_track None)) = Some ''ep-v1''"
    by (simp add: sourceName_of_def truthy_string_def desktop_track_sel)
  have sp: "split CHR ''-'' ''ep-v1'' = ''ep'' # ''v1'' # []" by simp
  have num: "Number_decimal (drop 1 ''v1'') = Whole 1" by (simp add: Number_decimal_values)
  have ne: "(1::nat) \<noteq> 0" by simp
  have wf: "\<forall>t \<in> set (getTransceivers (peerconnection muted_start_pc)). has_receiver_track t \<and> sender t \<noteq> None"
    using muted_start_facts(2) by (simp only: muted_start_facts(1))
  from replaceTrack_mute_unmute
    [OF mute_unmute_branch(1) mute_unmute_branch(2) wf, of "desktop_track None" Number_decimal]
    sn sp num ne
  have "replaceTrack Number_decimal False muted_start_pc None (Some (desktop_track None)) =
          bound_to
            (if 1 < length (sending_positions (mediaType_of None (Some (desktop_track None)))
                              (getTransceivers (peerconnection muted_start_pc)))
             then Some (sending_positions (mediaType_of None (Some (desktop_track None)))
                          (getTransceivers (peerconnection muted_start_pc)) ! 1)
             else None)
            (Option.bind (Some (desktop_track None)) getTrack)"
    by blast
  then have "replaceTrack Number_decimal False muted_start_pc None (Some (desktop_track None)) =
     Transport (SenderReplaceTrack 2 (getTrack (desktop_track None)))"
    by (simp add: mt muted_start_facts bound_to_def)
  with sn num mute_unmute_branch(2) show ?thesis
    by (simp add: muted_start_facts)
qed

text \<open>
  Claim C6 as stated fails for the index 0: with the source name "ep-v0" and a first
  video transceiver that is recvonly, the track is bound to that transceiver (position
  0), and not to the first video transceiver that is not recvonly (position 1).
\<close>

theorem replaceTrack_index_zero_counterexample:
  "sourceName_of None (Some camera_720) = Some ''ep-v0'' \<and>
   replaceTrack Number_decimal False muted_start_pc None (Some camera_720) =
     Transport (SenderReplaceTrack 0 (Some cam_track)) \<and>
   direction (getTransceivers (peerconnection muted_start_pc) ! 0) = ''recvonly'' \<and>
   sending_positions (Some ''video'') (getTransceivers (peerconnection muted_start_pc)) ! 0 = 1"
proof -
  have mt: "mediaType_of None (Some camera_720) = Some ''video''"
    by (simp add: mediaType_of_def truthy_string_def camera_720_sel)
  have sn: "sourceName_of None (Some camera_720) = Some ''ep-v0''"
    by (simp add: sourceName_of_def truthy_string_def camera_720_sel)
  have wf: "\<forall>t \<in> set muted_start. has_receiver_track t"
    using muted_start_facts(2) by simp
  have "select_transceiver Number_decimal False muted_start_pc None (Some camera_720) = Inr (Some 0)"
    by (simp add: select_mute_unmute [OF mute_unmute_branch] mt sn
        select_by_source_name_pure [OF wf] Number_decimal_values truthy_def muted_start_facts)
  then have "replaceTrack Number_decimal False muted_start_pc None (Some camera_720) =
     Transport (SenderReplaceTrack 0 (Some cam_track))"
    by (simp add: replaceTrack_def muted_start_facts(1) muted_start_def video_transceiver_def camera_720_sel)
  with sn show ?thesis by (simp add: muted_start_facts)
qed

text \<open>
  Claim C10: when the first transceiver of the track's kind is recvonly and the track
  has no original stream, \<^verbatim>\<open>addTrackUnmute\<close> returns a resolved promise and the peer
  connection is as before: no stream added, no parameters set, the map of local tracks
  and every direction unchanged.
\<close>

theorem addTrackUnmute_no_stream:
  assumes "findIndex (of_kind (Some (getType localTrack))) (getTransceivers (peerconnection pc)) = Some i"
    and "direction (getTransceivers (peerconnection pc) ! i) = ''recvonly''"
    and "getOriginalStream localTrack = None"
  shows "addTrackUnmute tr b vb pc localTrack = (Resolves, pc)"
proof -
  have "find_index (receiver_kind_guarded (getType localTrack)) (getTransceivers (peerconnection pc)) =
          Inr (Some i)"
    using assms(1) find_index_pure [of _ "receiver_kind_guarded (getType localTrack)"
        "of_kind (Some (getType localTrack))"]
    by (simp add: receiver_kind_guarded_pure)
  with assms(2,3) show ?thesis
    by (simp add: addTrackUnmute_def Let_def)
qed

theorem addTrackUnmute_no_stream_witness:
  "findIndex (of_kind (Some (getType (desktop_track None)))) (getTransceivers (peerconnection muted_start_pc)) = Some 0 \<and>
   direction (getTransceivers (peerconnection muted_start_pc) ! 0) = ''recvonly'' \<and>
   getOriginalStream (desktop_track None) = None \<and>
   addTrackUnmute recording_transport chrome bitrates muted_start_pc (desktop_track None) =
     (Resolves, muted_start_pc)"
proof -
  have h1: "findIndex (of_kind (Some (getType (desktop_track None))))
              (getTransceivers (peerconnection muted_start_pc)) = Some 0"
    by (simp add: desktop_track_sel muted_start_facts)
  have h2: "direction (getTransceivers (peerconnection muted_start_pc) ! 0) = ''recvonly''"
    by (simp add: muted_start_facts)
  have h3: "getOriginalStream (desktop_track None) = None"
    by (simp add: desktop_track_sel)
  from addTrackUnmute_no_stream [OF h1 h2 h3, of recording_transport chrome bitrates] h1 h2 h3
  show ?thesis by simp
qed

text \<open>
  Claim C3 at inputs where the lookup fails. On a connection without transceivers
  \<^verbatim>\<open>addTrackUnmute\<close>, \<^verbatim>\<open>removeTrackMute\<close> and \<^verbatim>\<open>replaceTrack\<close> return a rejected promise
  with a message, and \<^verbatim>\<open>setEncodings\<close> throws a \<^verbatim>\<open>TypeError\<close>; it throws as well on a
  connection whose senders hold no track.
\<close>

theorem lookup_failure_outcomes:
  "addTrackUnmute tr b vb (simulcast_pc empty_connection) camera_720 =
     (Rejects ''RTCRtpTransceiver for video not found'', simulcast_pc empty_connection) \<and>
   removeTrackMute (simulcast_pc empty_connection) camera_720 =
     Rejects ''RTCRtpTransceiver for video not found'' \<and>
   replaceTrack Number multiStream (simulcast_pc empty_connection) None (Some camera_720) =
     Rejects ''replace track failed'' \<and>
   setEncodings b vb (simulcast_pc empty_connection) camera_720 = Throws TypeError \<and>
   setEncodings b vb muted_start_pc camera_720 = Throws TypeError"
proof (intro conjI)
  have ts: "getTransceivers (peerconnection (simulcast_pc empty_connection)) = []"
    by (simp add: simulcast_pc_def empty_connection_def)
  show "addTrackUnmute tr b vb (simulcast_pc empty_connection) camera_720 =
     (Rejects ''RTCRtpTransceiver for video not found'', simulcast_pc empty_connection)"
    by (simp add: addTrackUnmute_def ts not_found_def camera_720_sel)
  show "removeTrackMute (simulcast_pc empty_connection) camera_720 =
     Rejects ''RTCRtpTransceiver for video not found''"
    by (simp add: removeTrackMute_def ts not_found_def camera_720_sel)
  have "select_by_source_name Number mt (Some ''ep-v0'') [] = Inr None" for mt
    by (simp add: select_by_source_name_def array_get_def Let_def split: js_number.splits)
  then have "select_transceiver Number multiStream (simulcast_pc empty_connection) None (Some camera_720) = Inr None"
    by (simp add: select_transceiver_def ts sourceName_of_def truthy_string_def camera_720_sel Let_def)
  then show "replaceTrack Number multiStream (simulcast_pc empty_connection) None (Some camera_720) =
     Rejects ''replace track failed''"
    by (simp add: replaceTrack_def)
  show "setEncodings b vb (simulcast_pc empty_connection) camera_720 = Throws TypeError"
    by (simp add: setEncodings_def ts)
  show "setEncodings b vb muted_start_pc camera_720 = Throws TypeError"
    by (simp add: setEncodings_def muted_start_facts(1) muted_start_def video_transceiver_def
        sender_kind_guarded_def)
qed

end
